theory Spec2Isabelle
  imports Complex_Main "HOL-Library.Stream"
begin

section \<open>Python values used by the bridge\<close>

text \<open>
  The bridge is \<^verbatim>\<open>src/tak_bot/__main__.py\<close>.  A Python \<^verbatim>\<open>str\<close> is modelled as a
  \<^typ>\<open>string\<close>: a list of characters, each character standing for the code point
  \<open>of_char c\<close> (0 to 255).  \<^verbatim>\<open>bytes\<close> objects are lists of characters as well, one
  character for one byte.
\<close>

type_synonym bytes = "char list"

text \<open>
  \<^verbatim>\<open>str.strip()\<close> and \<^verbatim>\<open>str.split()\<close> without a separator use the whitespace
  predicate of the interpreter; on the code points below 256 these are the
  characters 9 to 13, 28 to 32, 133 and 160.
\<close>

definition isspace :: "char \<Rightarrow> bool" where
  "isspace c =
     (let n = (of_char c :: nat)
      in (9 \<le> n \<and> n \<le> 13) \<or> (28 \<le> n \<and> n \<le> 32) \<or> n = 133 \<or> n = 160)"

definition lstrip :: "string \<Rightarrow> string" where
  "lstrip s = dropWhile isspace s"

definition rstrip :: "string \<Rightarrow> string" where
  "rstrip s = rev (dropWhile isspace (rev s))"

definition strip :: "string \<Rightarrow> string" where
  "strip s = rstrip (lstrip s)"

text \<open>
  \<^verbatim>\<open>s.split(maxsplit=n)\<close>: up to \<open>n\<close> times, skip whitespace and cut off the next
  run of non-whitespace; afterwards skip whitespace once more and, when anything is
  left, append all of it (trailing whitespace included) as the last item.
\<close>

fun split_ws :: "nat \<Rightarrow> string \<Rightarrow> string list" where
  "split_ws 0 s =
     (let r = dropWhile isspace s in if r = [] then [] else [r])"
| "split_ws (Suc n) s =
     (let r = dropWhile isspace s
      in if r = [] then []
         else takeWhile (\<lambda>c. \<not> isspace c) r
              # split_ws n (dropWhile (\<lambda>c. \<not> isspace c) r))"

text \<open>
  \<^verbatim>\<open>str.lower()\<close> on the code points below 256: the capital letters are 65 to 90
  and 192 to 222 without the multiplication sign 215; each maps to the code point
  32 above it.
\<close>

definition lower_char :: "char \<Rightarrow> char" where
  "lower_char c =
     (let n = (of_char c :: nat)
      in if (65 \<le> n \<and> n \<le> 90) \<or> (192 \<le> n \<and> n \<le> 222 \<and> n \<noteq> 215)
         then char_of (n + 32) else c)"

definition lower :: "string \<Rightarrow> string" where
  "lower s = map lower_char s"

text \<open>
  A Python \<^verbatim>\<open>float\<close>: a finite value (every finite double is a rational number),
  an infinity, or a NaN.  The bridge only compares floats with integer bounds and
  hands them on, so no rounding takes place in it.
\<close>

datatype pyfloat = Finite rat | PosInf | NegInf | NaN

fun int_le_float :: "int \<Rightarrow> pyfloat \<Rightarrow> bool" where
  "int_le_float i (Finite r) = (of_int i \<le> r)"
| "int_le_float i PosInf = True"
| "int_le_float i NegInf = False"
| "int_le_float i NaN = False"

fun float_le_int :: "pyfloat \<Rightarrow> int \<Rightarrow> bool" where
  "float_le_int (Finite r) i = (r \<le> of_int i)"
| "float_le_int PosInf i = False"
| "float_le_int NegInf i = True"
| "float_le_int NaN i = False"

subsection \<open>Exceptions\<close>

datatype value_error =
    Expected_lat_lon_label
  | Invalid_coordinates
  | Invalid_latitude
  | Invalid_longitude
  | Label_cannot_be_empty

datatype exn =
    ValueError value_error
  | JSONDecodeError
  | UnicodeDecodeError
  | RecursionError
  | AttributeError
  | TypeError
  | ConnectionRefusedError
  | ProcessLookupError
  | OSError
  | CancelledError

text \<open>
  \<^verbatim>\<open>JSONDecodeError\<close> and \<^verbatim>\<open>UnicodeDecodeError\<close> derive from
  \<^verbatim>\<open>ValueError\<close>; \<^verbatim>\<open>ConnectionRefusedError\<close> and \<^verbatim>\<open>ProcessLookupError\<close>
  derive from \<^verbatim>\<open>OSError\<close>, which stands for every other connection-level
  error; \<^verbatim>\<open>CancelledError\<close>
  derives from \<^verbatim>\<open>BaseException\<close> and is the one exception here that
  \<^verbatim>\<open>except Exception\<close> does not catch.
\<close>

fun isinstance_ValueError :: "exn \<Rightarrow> bool" where
  "isinstance_ValueError (ValueError _) = True"
| "isinstance_ValueError JSONDecodeError = True"
| "isinstance_ValueError UnicodeDecodeError = True"
| "isinstance_ValueError _ = False"

fun isinstance_Exception :: "exn \<Rightarrow> bool" where
  "isinstance_Exception CancelledError = False"
| "isinstance_Exception _ = True"

subsection \<open>Observable effects\<close>

datatype level = DEBUG | INFO | WARNING | ERROR

datatype event =
    Log level string
  | Sleep nat
  | Open_connection
  | Writer_close
  | Writer_wait_closed
  | Proc_start string
  | Proc_terminate
  | Proc_wait

text \<open>
  The state threaded through the bridge: the items put on the output queue, oldest
  first; the log records and other effects in the order they happen; and the number
  of calls of \<^verbatim>\<open>uuid.uuid4()\<close> made so far.  A log record keeps the level and the
  fixed text of the message, followed by the interpolated value where that value is
  a plain string.
\<close>

record state =
  queue :: "bytes list"
  trace :: "event list"
  uuid_calls :: nat

definition emit :: "event \<Rightarrow> state \<Rightarrow> state" where
  "emit e st = st\<lparr>trace := trace st @ [e]\<rparr>"

definition queue_put :: "bytes \<Rightarrow> state \<Rightarrow> state" where
  "queue_put item st = st\<lparr>queue := queue st @ [item]\<rparr>"

section \<open>The marker event model\<close>

datatype Affiliation = HOSTILE | FRIENDLY | NEUTRAL | UNKNOWN

fun Affiliation_value :: "Affiliation \<Rightarrow> string" where
  "Affiliation_value HOSTILE = ''h''"
| "Affiliation_value FRIENDLY = ''f''"
| "Affiliation_value NEUTRAL = ''n''"
| "Affiliation_value UNKNOWN = ''u''"

definition COT_TYPE_MAP :: "(string \<times> string) list" where
  "COT_TYPE_MAP =
     [(''tank'', ''G-U-C-F-M''),
      (''apc'', ''G-U-C-F-A''),
      (''infantry'', ''G-U-C-I''),
      (''artillery'', ''G-U-C-F-D''),
      (''mlrs'', ''G-U-C-F-D-M''),
      (''sam'', ''G-U-W-M-S''),
      (''radar'', ''G-U-S-R''),
      (''truck'', ''G-U-S-T''),
      (''helicopter'', ''A-M-H''),
      (''drone'', ''A-M-F-Q'')]"

record CoordinateMessage =
  lat :: pyfloat
  lon :: pyfloat
  description :: string
  affiliation :: Affiliation
  event_id :: string

text \<open>\<^verbatim>\<open>__post_init__\<close>: the three validations, in the order of the source.\<close>

definition post_init :: "CoordinateMessage \<Rightarrow> exn + unit" where
  "post_init m =
     (if \<not> (int_le_float (- 90) (lat m) \<and> float_le_int (lat m) 90)
        then Inl (ValueError Invalid_latitude)
      else if \<not> (int_le_float (- 180) (lon m) \<and> float_le_int (lon m) 180)
        then Inl (ValueError Invalid_longitude)
      else if description m = []
        then Inl (ValueError Label_cannot_be_empty)
      else Inr ())"

text \<open>
  The constructor call \<^verbatim>\<open>cls(lat=..., lon=..., description=...)\<close>: the generated
  \<^verbatim>\<open>__init__\<close> fills in the default affiliation, runs the default factory of
  \<^verbatim>\<open>event_id\<close> (one call of \<^verbatim>\<open>uuid.uuid4()\<close>, whose result at the \<open>n\<close>-th call is
  \<open>uuid4 n\<close>), and then runs \<^verbatim>\<open>__post_init__\<close>.
\<close>

definition new_CoordinateMessage ::
  "(nat \<Rightarrow> string) \<Rightarrow> pyfloat \<Rightarrow> pyfloat \<Rightarrow> string \<Rightarrow> state
     \<Rightarrow> (exn + CoordinateMessage) \<times> state" where
  "new_CoordinateMessage uuid4 la lo d st =
     (let eid = ''Signal-Bot-'' @ uuid4 (uuid_calls st);
          st' = st\<lparr>uuid_calls := Suc (uuid_calls st)\<rparr>;
          m = \<lparr>lat = la, lon = lo, description = d, affiliation = UNKNOWN,
               event_id = eid\<rparr>
      in case post_init m of
           Inl e \<Rightarrow> (Inl e, st')
         | Inr _ \<Rightarrow> (Inr m, st'))"

text \<open>
  \<^verbatim>\<open>CoordinateMessage.from_string\<close>.  The builtin \<^verbatim>\<open>float()\<close> is the parameter
  \<open>to_float\<close>, with \<open>None\<close> for its \<^verbatim>\<open>ValueError\<close>.
\<close>

definition from_string ::
  "(nat \<Rightarrow> string) \<Rightarrow> (string \<Rightarrow> pyfloat option) \<Rightarrow> string \<Rightarrow> state
     \<Rightarrow> (exn + CoordinateMessage) \<times> state" where
  "from_string uuid4 to_float text st =
     (let parts = split_ws 2 (strip text)
      in if length parts \<noteq> 3 then (Inl (ValueError Expected_lat_lon_label), st)
         else case to_float (parts ! 0) of
                None \<Rightarrow> (Inl (ValueError Invalid_coordinates), st)
              | Some la \<Rightarrow>
                  (case to_float (parts ! 1) of
                     None \<Rightarrow> (Inl (ValueError Invalid_coordinates), st)
                   | Some lo \<Rightarrow> new_CoordinateMessage uuid4 la lo (parts ! 2) st))"

text \<open>The property \<^verbatim>\<open>cot_type\<close>.\<close>

definition cot_type :: "CoordinateMessage \<Rightarrow> string" where
  "cot_type m =
     (let base = (case map_of COT_TYPE_MAP (lower (description m)) of
                    None \<Rightarrow> ''G-U''
                  | Some b \<Rightarrow> if b = [] then ''G-U'' else b)
      in ''a-'' @ Affiliation_value (affiliation m) @ ''-'' @ base)"

text \<open>
  \<^verbatim>\<open>gen_cot\<close> with its default arguments.  The encoder \<^verbatim>\<open>pytak.gen_cot\<close> is a
  parameter taking \<open>lat lon uid ce le hae cot_type stale\<close> and returning the bytes
  or \<open>None\<close>.
\<close>

type_synonym encoder =
  "pyfloat \<Rightarrow> pyfloat \<Rightarrow> string \<Rightarrow> int \<Rightarrow> int \<Rightarrow> int \<Rightarrow> string \<Rightarrow> int \<Rightarrow> bytes option"

definition gen_cot :: "encoder \<Rightarrow> CoordinateMessage \<Rightarrow> bytes option" where
  "gen_cot pytak_gen_cot m =
     pytak_gen_cot (lat m) (lon m) (event_id m) 50 9999999 0 (cot_type m) 120"

section \<open>The conversion handler\<close>

text \<open>
  \<^verbatim>\<open>_cot_message_handler\<close>.  Only a \<^verbatim>\<open>ValueError\<close> is caught; an empty bytes
  object is as false as \<^verbatim>\<open>None\<close>.
\<close>

definition cot_message_handler ::
  "(nat \<Rightarrow> string) \<Rightarrow> (string \<Rightarrow> pyfloat option) \<Rightarrow> encoder \<Rightarrow> string \<Rightarrow> state
     \<Rightarrow> (exn + unit) \<times> state" where
  "cot_message_handler uuid4 to_float pytak_gen_cot cot_message_raw st =
     (case from_string uuid4 to_float cot_message_raw st of
        (Inl e, st1) \<Rightarrow>
          if isinstance_ValueError e
          then (Inr (), emit (Log WARNING (''message could not be parsed: '' @ cot_message_raw)) st1)
          else (Inl e, st1)
      | (Inr m, st1) \<Rightarrow>
          (case gen_cot pytak_gen_cot m of
             None \<Rightarrow>
               (Inr (), emit (Log WARNING (''Failed to generate cot bytes for : '' @ cot_message_raw)) st1)
           | Some cot_bytes \<Rightarrow>
               if cot_bytes \<noteq> []
               then (Inr (), queue_put cot_bytes st1)
               else (Inr (), emit (Log WARNING (''Failed to generate cot bytes for : '' @ cot_message_raw)) st1)))"

section \<open>The envelope router\<close>

text \<open>
  The objects \<^verbatim>\<open>json.loads\<close> builds.  A \<^verbatim>\<open>dict\<close> is the list of its items; a
  lookup takes the first binding of a key (a \<^verbatim>\<open>dict\<close> has only one).
\<close>

datatype json =
    JNone
  | JBool bool
  | JInt int
  | JFloat pyfloat
  | JStr string
  | JList "json list"
  | JDict "(string \<times> json) list"

text \<open>Truth value of an object, as \<^verbatim>\<open>if x:\<close> and \<^verbatim>\<open>x or y\<close> test it.\<close>

fun truthy :: "json \<Rightarrow> bool" where
  "truthy JNone = False"
| "truthy (JBool b) = b"
| "truthy (JInt i) = (i \<noteq> 0)"
| "truthy (JFloat f) = (f \<noteq> Finite 0)"
| "truthy (JStr s) = (s \<noteq> [])"
| "truthy (JList xs) = (xs \<noteq> [])"
| "truthy (JDict d) = (d \<noteq> [])"

text \<open>\<^verbatim>\<open>obj.get(key, default)\<close>: only a \<^verbatim>\<open>dict\<close> has the method.\<close>

fun py_get :: "json \<Rightarrow> string \<Rightarrow> json \<Rightarrow> exn + json" where
  "py_get (JDict d) key dflt = Inr (case map_of d key of None \<Rightarrow> dflt | Some v \<Rightarrow> v)"
| "py_get _ key dflt = Inl AttributeError"

text \<open>\<^verbatim>\<open>sub in s\<close> on strings: \<open>sub\<close> occurs in \<open>s\<close> as a contiguous run.\<close>

fun contains :: "string \<Rightarrow> string \<Rightarrow> bool" where
  "contains sub [] = (sub = [])"
| "contains sub (c # s) = (take (length sub) (c # s) = sub \<or> contains sub s)"

text \<open>
  \<^verbatim>\<open>key in obj\<close> for a string key: key membership for a \<^verbatim>\<open>dict\<close>, substring
  test for a \<^verbatim>\<open>str\<close>, element membership for a \<^verbatim>\<open>list\<close>, and a
  \<^verbatim>\<open>TypeError\<close> for the objects that are not iterable.
\<close>

fun py_in :: "string \<Rightarrow> json \<Rightarrow> exn + bool" where
  "py_in key (JDict d) = Inr (map_of d key \<noteq> None)"
| "py_in key (JStr s) = Inr (contains key s)"
| "py_in key (JList xs) = Inr (JStr key \<in> set xs)"
| "py_in key _ = Inl TypeError"

text \<open>
  \<^verbatim>\<open>obj[:n]\<close>: a \<^verbatim>\<open>str\<close> and a \<^verbatim>\<open>list\<close> can be sliced; \<^verbatim>\<open>None\<close>, numbers
  and booleans raise \<^verbatim>\<open>TypeError\<close>, and so does a \<^verbatim>\<open>dict\<close> (from Python 3.12
  on its exception is a \<^verbatim>\<open>KeyError\<close>, which is handled the same way everywhere
  in the bridge).
\<close>

fun py_slice :: "json \<Rightarrow> nat \<Rightarrow> exn + json" where
  "py_slice (JStr s) n = Inr (JStr (take n s))"
| "py_slice (JList xs) n = Inr (JList (take n xs))"
| "py_slice _ n = Inl TypeError"

text \<open>Sequencing of a step that may raise and changes no state.\<close>

definition try_pure ::
  "exn + 'a \<Rightarrow> state \<Rightarrow> ('a \<Rightarrow> (exn + 'b) \<times> state) \<Rightarrow> (exn + 'b) \<times> state" where
  "try_pure r st k = (case r of Inl e \<Rightarrow> (Inl e, st) | Inr v \<Rightarrow> k v)"

type_synonym handler = "json \<Rightarrow> state \<Rightarrow> (exn + unit) \<times> state"

text \<open>
  \<^verbatim>\<open>handle_socket_message\<close>.  The argument of \<^verbatim>\<open>logger.info\<close> is an f-string, so
  the slices \<^verbatim>\<open>account[:7]\<close> and \<^verbatim>\<open>source[:10]\<close> are evaluated, in this order,
  before the record is logged and before the callback is awaited.
\<close>

definition handle_socket_message ::
  "json \<Rightarrow> handler option \<Rightarrow> string \<Rightarrow> state \<Rightarrow> (exn + unit) \<times> state" where
  "handle_socket_message message message_hanlder filter_param st =
     try_pure (py_get message ''method'' JNone) st (\<lambda>method.
     if method = JStr ''receive'' then
       try_pure (py_get message ''params'' (JDict [])) st (\<lambda>params.
       try_pure (py_get params ''envelope'' (JDict [])) st (\<lambda>envelope.
       try_pure (py_in filter_param envelope) st (\<lambda>present.
       if \<not> present then (Inr (), st)
       else
         try_pure (py_get params ''account'' JNone) st (\<lambda>account.
         try_pure (py_get envelope ''sourceNumber'' JNone) st (\<lambda>source_number.
         try_pure (if truthy source_number then Inr source_number
                   else py_get envelope ''source'' JNone) st (\<lambda>source.
         try_pure (py_get envelope ''dataMessage'' (JDict [])) st (\<lambda>data_message.
         try_pure (py_get data_message ''message'' JNone) st (\<lambda>text.
         if truthy text then
           try_pure (py_slice account 7) st (\<lambda>_.
           try_pure (py_slice source 10) st (\<lambda>_.
             let st1 = emit (Log INFO ''Message from'') st
             in case message_hanlder of
                  None \<Rightarrow> (Inr (), st1)
                | Some h \<Rightarrow> h text st1))
         else (Inr (), emit (Log DEBUG ''Non-text message from'') st)))))))))
     else (Inr (), emit (Log DEBUG ''Other notification'') st))"

section \<open>The reconnecting line client\<close>

text \<open>
  What the daemon's side does is given from outside.  One call of
  \<^verbatim>\<open>reader.readline()\<close> either returns bytes or raises: \<open>Recv_text s\<close> stands for
  bytes whose UTF-8 decoding is \<open>s\<close> (the empty bytes object of the end of the
  stream is \<open>Recv_text []\<close>), \<open>Recv_undecodable\<close> for bytes that are not valid
  UTF-8.  One pass of the outer loop meets one \<open>connection\<close>: what
  \<^verbatim>\<open>asyncio.open_connection\<close> does (it raises, or it connects to a peer whose reads
  are the given stream), what \<^verbatim>\<open>writer.wait_closed()\<close> does and what
  \<^verbatim>\<open>asyncio.sleep(5)\<close> does if they are reached (\<open>None\<close>: they return).
\<close>

datatype recv = Recv_text string | Recv_undecodable | Recv_raises exn

datatype connection =
  Connection (on_open: "exn + recv stream") (on_close: "exn option") (on_sleep: "exn option")

datatype control = Continue | Break | Raise exn

text \<open>
  The body of the inner \<^verbatim>\<open>while True\<close>, for one call of \<^verbatim>\<open>readline\<close>.  The
  builtin \<^verbatim>\<open>json.loads\<close> is the parameter \<open>json_loads\<close>; it returns an object
  or raises (a \<^verbatim>\<open>JSONDecodeError\<close> on text that is not JSON, a
  \<^verbatim>\<open>RecursionError\<close> on text nested too deeply).  The decoding of the line is
  outside the inner \<^verbatim>\<open>try\<close>, whose \<^verbatim>\<open>except json.JSONDecodeError\<close> clause guards
  \<^verbatim>\<open>json.loads\<close> and the call of \<^verbatim>\<open>handle_socket_message\<close>.
\<close>

definition read_line ::
  "(string \<Rightarrow> exn + json) \<Rightarrow> handler option \<Rightarrow> recv \<Rightarrow> state \<Rightarrow> control \<times> state" where
  "read_line json_loads message_handler r st =
     (case r of
        Recv_raises e \<Rightarrow> (Raise e, st)
      | Recv_undecodable \<Rightarrow> (Raise UnicodeDecodeError, st)
      | Recv_text line \<Rightarrow>
          if line = [] then (Break, emit (Log WARNING ''Connection closed by server'') st)
          else
            let line_str = strip line
            in if line_str = [] then (Continue, st)
               else
                 let st1 = emit (Log DEBUG (''Raw: '' @ line_str)) st
                 in case (case json_loads line_str of
                            Inl e \<Rightarrow> (Inl e, st1)
                          | Inr message \<Rightarrow>
                              handle_socket_message message message_handler ''dataMessage'' st1) of
                      (Inr _, st2) \<Rightarrow> (Continue, st2)
                    | (Inl e, st2) \<Rightarrow>
                        if e = JSONDecodeError
                        then (Continue, emit (Log DEBUG (''Non-JSON: '' @ line_str)) st2)
                        else (Raise e, st2))"

text \<open>
  The inner \<^verbatim>\<open>while True\<close>: it ends by \<^verbatim>\<open>break\<close> (\<open>None\<close> in the result) or by an
  exception, and it does not end while the peer keeps sending lines.
\<close>

partial_function (option) read_lines ::
  "(string \<Rightarrow> exn + json) \<Rightarrow> handler option \<Rightarrow> recv stream \<Rightarrow> state
     \<Rightarrow> (exn option \<times> state) option" where
  "read_lines json_loads message_handler reads st =
     (case read_line json_loads message_handler (shd reads) st of
        (Continue, st') \<Rightarrow> read_lines json_loads message_handler (stl reads) st'
      | (Break, st') \<Rightarrow> Some (None, st')
      | (Raise e, st') \<Rightarrow> Some (Some e, st'))"

text \<open>\<^verbatim>\<open>await asyncio.sleep(5)\<close> inside an \<^verbatim>\<open>except\<close> clause.\<close>

definition sleep5 :: "exn option \<Rightarrow> state \<Rightarrow> exn option \<times> state" where
  "sleep5 outcome st = (outcome, emit (Sleep 5) st)"

text \<open>
  The two \<^verbatim>\<open>except\<close> clauses of the outer \<^verbatim>\<open>try\<close>, for an exception \<open>e\<close> raised
  in its body.  The result is the exception that leaves the \<^verbatim>\<open>try\<close> statement,
  if any.
\<close>

definition except_clauses :: "exn \<Rightarrow> exn option \<Rightarrow> state \<Rightarrow> exn option \<times> state" where
  "except_clauses e sleep_outcome st =
     (if e = ConnectionRefusedError
        then sleep5 sleep_outcome
               (emit (Log ERROR ''Connection refused. Is daemon running with --tcp?'') st)
      else if isinstance_Exception e
        then sleep5 sleep_outcome (emit (Log ERROR ''Connection error'') st)
      else (Some e, st))"

text \<open>
  One pass of the outer \<^verbatim>\<open>while True\<close>.  The result is \<open>None\<close> when the inner loop
  does not end; otherwise it holds the exception that leaves the loop body, if any.
  An exception of \<^verbatim>\<open>wait_closed\<close> in the \<^verbatim>\<open>finally\<close> block replaces the one that
  was on its way out.
\<close>

definition attempt ::
  "(string \<Rightarrow> exn + json) \<Rightarrow> handler option \<Rightarrow> connection \<Rightarrow> state
     \<Rightarrow> (exn option \<times> state) option" where
  "attempt json_loads message_handler c st =
     (let st0 = emit Open_connection st
      in case on_open c of
           Inl e \<Rightarrow> Some (except_clauses e (on_sleep c) st0)
         | Inr reads \<Rightarrow>
             (case read_lines json_loads message_handler reads
                     (emit (Log INFO ''Connected to'') st0) of
                None \<Rightarrow> None
              | Some (r, st1) \<Rightarrow>
                  let st2 = emit Writer_wait_closed (emit Writer_close st1)
                  in case on_close c of
                       Some e' \<Rightarrow> Some (except_clauses e' (on_sleep c) st2)
                     | None \<Rightarrow>
                         (case r of
                            None \<Rightarrow> Some (None, st2)
                          | Some e \<Rightarrow> Some (except_clauses e (on_sleep c) st2))))"

text \<open>
  The outer \<^verbatim>\<open>while True\<close>.  A result \<open>Some (Inr (), st)\<close> would be a normal
  return; \<open>None\<close> is a run that never ends.
\<close>

partial_function (option) reconnect_loop ::
  "(string \<Rightarrow> exn + json) \<Rightarrow> handler option \<Rightarrow> connection stream \<Rightarrow> state
     \<Rightarrow> ((exn + unit) \<times> state) option" where
  "reconnect_loop json_loads message_handler conns st =
     (case attempt json_loads message_handler (shd conns) st of
        None \<Rightarrow> None
      | Some (None, st') \<Rightarrow> reconnect_loop json_loads message_handler (stl conns) st'
      | Some (Some e, st') \<Rightarrow> Some (Inl e, st'))"

definition receive_from_tcp_socket ::
  "(string \<Rightarrow> exn + json) \<Rightarrow> connection stream \<Rightarrow> string \<Rightarrow> int \<Rightarrow> handler option \<Rightarrow> state
     \<Rightarrow> ((exn + unit) \<times> state) option" where
  "receive_from_tcp_socket json_loads conns host port message_handler st =
     reconnect_loop json_loads message_handler conns
       (emit (Log INFO ''Connecting to signal-cli daemon'') st)"

section \<open>The process supervisor\<close>

text \<open>
  \<^verbatim>\<open>run\<close>: \<open>spawn\<close> is what \<^verbatim>\<open>asyncio.create_subprocess_shell\<close> does (\<open>Some e\<close>: it
  raises \<open>e\<close> and no process exists).
\<close>

definition run :: "exn option \<Rightarrow> string \<Rightarrow> state \<Rightarrow> (exn + unit) \<times> state" where
  "run spawn cmd st =
     (case spawn of
        Some e \<Rightarrow> (Inl e, st)
      | None \<Rightarrow> (Inr (), emit (Log INFO ''Started process'') (emit (Proc_start cmd) st)))"

text \<open>
  \<^verbatim>\<open>async with cleaning_up_proc(cmd): body\<close>.  The \<open>body\<close> is the block under the
  \<^verbatim>\<open>with\<close>.  Whatever way it ends, the \<^verbatim>\<open>finally\<close> clause calls
  \<^verbatim>\<open>process.terminate()\<close> and then awaits \<^verbatim>\<open>process.wait()\<close>; \<open>on_terminate\<close> and
  \<open>on_wait\<close> are what these two calls do (\<open>None\<close>: they return; \<^verbatim>\<open>terminate\<close> raises
  \<^verbatim>\<open>ProcessLookupError\<close> when the child has exited already, \<^verbatim>\<open>wait\<close> can be
  cancelled).  An exception raised in the \<^verbatim>\<open>finally\<close> clause ends the clause and
  replaces the outcome of the body; otherwise the outcome of the body is the outcome
  of the statement.
\<close>

definition cleaning_up_proc ::
  "exn option \<Rightarrow> exn option \<Rightarrow> exn option \<Rightarrow> string
     \<Rightarrow> (state \<Rightarrow> ((exn + unit) \<times> state) option) \<Rightarrow> state
     \<Rightarrow> ((exn + unit) \<times> state) option" where
  "cleaning_up_proc spawn on_terminate on_wait cmd body st =
     (case run spawn cmd st of
        (Inl e, st1) \<Rightarrow> Some (Inl e, st1)
      | (Inr _, st1) \<Rightarrow>
          (case body st1 of
             None \<Rightarrow> None
           | Some (r, st2) \<Rightarrow>
               (case on_terminate of
                  Some e \<Rightarrow> Some (Inl e, st2)
                | None \<Rightarrow>
                    let st3 = emit Proc_terminate st2
                    in case on_wait of
                         Some e \<Rightarrow> Some (Inl e, st3)
                       | None \<Rightarrow> Some (r, emit Proc_wait st3))))"

text \<open>
  The callback \<^verbatim>\<open>partial(_cot_message_handler, queue=queue)\<close> applied to whatever
  object the router extracted: an object that is not a \<^verbatim>\<open>str\<close> has no
  \<^verbatim>\<open>strip\<close> method.
\<close>

definition call_cot_message_handler ::
  "(nat \<Rightarrow> string) \<Rightarrow> (string \<Rightarrow> pyfloat option) \<Rightarrow> encoder \<Rightarrow> handler" where
  "call_cot_message_handler uuid4 to_float pytak_gen_cot text st =
     (case text of
        JStr s \<Rightarrow> cot_message_handler uuid4 to_float pytak_gen_cot s st
      | _ \<Rightarrow> (Inl AttributeError, st))"

definition run_incomming_message_processing ::
  "(nat \<Rightarrow> string) \<Rightarrow> (string \<Rightarrow> pyfloat option) \<Rightarrow> encoder \<Rightarrow> (string \<Rightarrow> exn + json)
     \<Rightarrow> exn option \<Rightarrow> exn option \<Rightarrow> exn option \<Rightarrow> connection stream
     \<Rightarrow> string \<Rightarrow> string \<Rightarrow> int \<Rightarrow> state
     \<Rightarrow> ((exn + unit) \<times> state) option" where
  "run_incomming_message_processing uuid4 to_float pytak_gen_cot json_loads spawn on_terminate
       on_wait conns cmd host port st =
     cleaning_up_proc spawn on_terminate on_wait cmd
       (receive_from_tcp_socket json_loads conns host port
          (Some (call_cot_message_handler uuid4 to_float pytak_gen_cot))) st"

section \<open>Vocabulary of the statements, and instances for the examples\<close>

text \<open>A run of whitespace, and a non-empty run without whitespace.\<close>

definition blank :: "string \<Rightarrow> bool" where
  "blank w = list_all isspace w"

definition token :: "string \<Rightarrow> bool" where
  "token a = (a \<noteq> [] \<and> list_all (\<lambda>c. \<not> isspace c) a)"

text \<open>The two range conditions of \<^verbatim>\<open>__post_init__\<close>.\<close>

definition lat_in_range :: "pyfloat \<Rightarrow> bool" where
  "lat_in_range x = (int_le_float (- 90) x \<and> float_le_int x 90)"

definition lon_in_range :: "pyfloat \<Rightarrow> bool" where
  "lon_in_range x = (int_le_float (- 180) x \<and> float_le_int x 180)"

text \<open>The text of the error-level record that an \<^verbatim>\<open>except\<close> clause logs.\<close>

definition error_message :: "exn \<Rightarrow> string" where
  "error_message e =
     (if e = ConnectionRefusedError then ''Connection refused. Is daemon running with --tcp?''
      else ''Connection error'')"

text \<open>
  Instances of the parameters for the examples: some values of \<^verbatim>\<open>float()\<close>
  (every string outside the table is rejected, as \<^verbatim>\<open>float()\<close> rejects the ones
  the examples use), a \<^verbatim>\<open>uuid4\<close> that never repeats a value, an encoder that
  returns the type code in a tag and never \<open>None\<close>, and a \<^verbatim>\<open>json.loads\<close> that
  knows one object and raises \<^verbatim>\<open>JSONDecodeError\<close> on every other text (the
  examples give it only text that is not JSON).
\<close>

definition example_float :: "string \<Rightarrow> pyfloat option" where
  "example_float s =
     map_of [(''1'', Finite 1), (''2'', Finite 2), (''48.5'', Finite (97 / 2)),
             (''91'', Finite 91), (''-181'', Finite (- 181)), (''nan'', NaN)] s"

definition example_uuid4 :: "nat \<Rightarrow> string" where
  "example_uuid4 n = replicate (Suc n) CHR ''0''"

definition example_encoder :: encoder where
  "example_encoder la lo uid ce le hae ctype stale = Some (''<event type='' @ ctype @ ''/>'')"

definition receive_1_2_tank :: json where
  "receive_1_2_tank =
     JDict [(''method'', JStr ''receive''),
            (''params'', JDict [(''envelope'',
               JDict [(''dataMessage'', JDict [(''message'', JStr ''1 2 tank'')])])])]"

definition empty_state :: state where
  "empty_state = \<lparr>queue = [], trace = [], uuid_calls = 0\<rparr>"

definition example_json_loads :: "string \<Rightarrow> exn + json" where
  "example_json_loads s =
     (if s = ''{\"method\":\"subscribe\"}'' then Inr (JDict [(''method'', JStr ''subscribe'')])
      else Inl JSONDecodeError)"

section \<open>Parsing chat text\<close>

subsection \<open>Whitespace splitting\<close>

lemma split_ws_nonempty: "p \<in> set (split_ws n s) \<Longrightarrow> p \<noteq> []"
proof (induction n arbitrary: s)
  case 0
  then show ?case by (auto simp: Let_def split: if_splits)
next
  case (Suc n)
  let ?r = "dropWhile isspace s"
  from Suc.prems have ne: "?r \<noteq> []" by (auto simp: Let_def split: if_splits)
  then have "\<not> isspace (hd ?r)" by (metis hd_dropWhile)
  then have "takeWhile (\<lambda>c. \<not> isspace c) ?r \<noteq> []" using ne
    by (cases ?r) auto
  with Suc show ?case by (auto simp: Let_def split: if_splits)
qed

lemma lstrip_blank_prefix: "blank a \<Longrightarrow> lstrip (a @ t) = lstrip t"
  by (simp add: lstrip_def blank_def list_all_iff dropWhile_append2)

lemma rstrip_blank_suffix:
  assumes "blank b"
  shows "rstrip (t @ b) = rstrip t"
proof -
  from assms have "dropWhile isspace (rev b @ rev t) = dropWhile isspace (rev t)"
    by (intro dropWhile_append2) (simp add: blank_def list_all_iff)
  then show ?thesis by (simp add: rstrip_def)
qed

lemma strip_blank_suffix:
  assumes "blank b"
  shows "strip (t @ b) = strip t"
proof (cases "blank t")
  case True
  with assms have "lstrip (t @ b) = []" "lstrip t = []"
    by (auto simp: lstrip_def blank_def list_all_iff)
  then show ?thesis by (simp add: strip_def)
next
  case False
  then have "lstrip (t @ b) = lstrip t @ b"
    by (auto simp: lstrip_def blank_def list_all_iff dropWhile_append1)
  with assms show ?thesis by (simp add: strip_def rstrip_blank_suffix)
qed

lemma strip_surrounding_blank: "blank a \<Longrightarrow> blank b \<Longrightarrow> strip (a @ t @ b) = strip t"
  by (simp add: strip_def lstrip_blank_prefix strip_blank_suffix [unfolded strip_def])

lemma strip_noop:
  assumes "s \<noteq> []" "\<not> isspace (hd s)" "\<not> isspace (last s)"
  shows "strip s = s"
proof -
  from assms have l: "lstrip s = s" by (cases s) (simp_all add: lstrip_def)
  from assms obtain ys y where s: "s = ys @ [y]" by (cases s rule: rev_cases) auto
  with assms have "\<not> isspace y" by simp
  then have "rstrip s = s" by (simp add: rstrip_def s)
  with l show ?thesis by (simp add: strip_def)
qed

lemma token_hd: "token a \<Longrightarrow> \<not> isspace (hd a)"
  by (cases a) (simp_all add: token_def)

lemma cut_token:
  assumes "token a" "r = [] \<or> isspace (hd r)"
  shows "dropWhile isspace (a @ r) = a @ r"
    and "takeWhile (\<lambda>c. \<not> isspace c) (a @ r) = a"
    and "dropWhile (\<lambda>c. \<not> isspace c) (a @ r) = r"
proof -
  from assms(1) obtain x xs where a: "a = x # xs" and x: "\<not> isspace x"
    by (cases a) (auto simp: token_def)
  from assms(1) have all: "\<forall>c\<in>set a. \<not> isspace c" by (simp add: token_def list_all_iff)
  show "dropWhile isspace (a @ r) = a @ r" using a x by simp
  from assms(2) have r: "takeWhile (\<lambda>c. \<not> isspace c) r = []" "dropWhile (\<lambda>c. \<not> isspace c) r = r"
    by (cases r; auto)+
  show "takeWhile (\<lambda>c. \<not> isspace c) (a @ r) = a" using all r by (simp add: takeWhile_append2)
  show "dropWhile (\<lambda>c. \<not> isspace c) (a @ r) = r" using all r by (simp add: dropWhile_append2)
qed

lemma skip_blank:
  "blank w \<Longrightarrow> r = [] \<or> \<not> isspace (hd r) \<Longrightarrow> dropWhile isspace (w @ r) = r"
  by (cases r) (auto simp: blank_def list_all_iff dropWhile_append2)

lemma split_ws_three:
  assumes "token a" "w1 \<noteq> []" "blank w1" "token b" "w2 \<noteq> []" "blank w2"
    and "c \<noteq> []" "\<not> isspace (hd c)"
  shows "split_ws 2 (a @ w1 @ b @ w2 @ c) = [a, b, c]"
proof -
  have hd1: "isspace (hd (w1 @ b @ w2 @ c))" using assms(2,3)
    by (cases w1) (simp_all add: blank_def)
  have hd2: "isspace (hd (w2 @ c))" using assms(5,6)
    by (cases w2) (simp_all add: blank_def)
  have hdb: "\<not> isspace (hd (b @ w2 @ c))" using assms(4) token_hd [of b]
    by (cases b) (simp_all add: token_def)
  have s1: "dropWhile isspace (w1 @ b @ w2 @ c) = b @ w2 @ c"
    using skip_blank [OF assms(3), of "b @ w2 @ c"] hdb by simp
  have s2: "dropWhile isspace (w2 @ c) = c"
    using skip_blank [OF assms(6), of c] assms(8) by simp
  have two: "(2::nat) = Suc (Suc 0)" by simp
  show ?thesis
    unfolding two
    using cut_token [OF assms(1), of "w1 @ b @ w2 @ c"] cut_token [OF assms(4), of "w2 @ c"]
      hd1 hd2 s1 s2 assms(1,4,7)
    by (simp add: Let_def token_def)
qed

lemma strip_text_form:
  assumes "blank w0" "token a" "c \<noteq> []" "\<not> isspace (last c)" "blank w3"
  shows "strip (w0 @ a @ w1 @ b @ w2 @ c @ w3) = a @ w1 @ b @ w2 @ c"
proof -
  have "strip (w0 @ (a @ w1 @ b @ w2 @ c) @ w3) = strip (a @ w1 @ b @ w2 @ c)"
    using assms(1,5) by (rule strip_surrounding_blank)
  moreover have "strip (a @ w1 @ b @ w2 @ c) = a @ w1 @ b @ w2 @ c"
  proof (rule strip_noop)
    show "a @ w1 @ b @ w2 @ c \<noteq> []" using assms(3) by simp
    show "\<not> isspace (hd (a @ w1 @ b @ w2 @ c))" using assms(2) token_hd [of a]
      by (cases a) (simp_all add: token_def)
    show "\<not> isspace (last (a @ w1 @ b @ w2 @ c))" using assms(3,4) by simp
  qed
  ultimately show ?thesis by simp
qed

subsection \<open>Parsing\<close>

lemma from_string_parts:
  assumes "split_ws 2 (strip text) = [a, b, c]" "to_float a = Some la" "to_float b = Some lo"
  shows "from_string uuid4 to_float text st = new_CoordinateMessage uuid4 la lo c st"
  using assms by (simp add: from_string_def)

lemma length3_cases: "length xs = 3 \<Longrightarrow> \<exists>a b c. xs = [a, b, c]"
  by (auto simp: length_Suc_conv numeral_3_eq_3)

lemma new_CoordinateMessage_cases:
  "new_CoordinateMessage uuid4 la lo d st =
     (if lat_in_range la \<and> lon_in_range lo \<and> d \<noteq> []
      then Inr \<lparr>lat = la, lon = lo, description = d, affiliation = UNKNOWN,
                event_id = ''Signal-Bot-'' @ uuid4 (uuid_calls st)\<rparr>
      else Inl (ValueError (if \<not> lat_in_range la then Invalid_latitude
                            else if \<not> lon_in_range lo then Invalid_longitude
                            else Label_cannot_be_empty)),
      st\<lparr>uuid_calls := Suc (uuid_calls st)\<rparr>)"
  by (simp add: new_CoordinateMessage_def post_init_def lat_in_range_def lon_in_range_def)

lemma from_string_Inr:
  assumes "from_string uuid4 to_float text st = (Inr m, st')"
  shows "\<exists>a b. split_ws 2 (strip text) = [a, b, description m]
           \<and> to_float a = Some (lat m) \<and> to_float b = Some (lon m)
           \<and> lat_in_range (lat m) \<and> lon_in_range (lon m) \<and> description m \<noteq> []
           \<and> affiliation m = UNKNOWN
           \<and> event_id m = ''Signal-Bot-'' @ uuid4 (uuid_calls st)
           \<and> st' = st\<lparr>uuid_calls := Suc (uuid_calls st)\<rparr>"
proof -
  let ?parts = "split_ws 2 (strip text)"
  from assms have len: "length ?parts = 3"
    by (cases "length ?parts = 3") (simp_all add: from_string_def)
  then obtain a b c where parts: "?parts = [a, b, c]"
    using length3_cases by blast
  from assms parts obtain la where la: "to_float a = Some la"
    by (cases "to_float a") (simp_all add: from_string_def)
  from assms parts la obtain lo where lo: "to_float b = Some lo"
    by (cases "to_float b") (simp_all add: from_string_def)
  from assms have new: "new_CoordinateMessage uuid4 la lo c st = (Inr m, st')"
    using from_string_parts [OF parts la lo] by simp
  then have ok: "lat_in_range la \<and> lon_in_range lo \<and> c \<noteq> []"
    by (simp add: new_CoordinateMessage_cases split: if_splits)
  with new have m: "m = \<lparr>lat = la, lon = lo, description = c, affiliation = UNKNOWN,
                event_id = ''Signal-Bot-'' @ uuid4 (uuid_calls st)\<rparr>"
    and st': "st' = st\<lparr>uuid_calls := Suc (uuid_calls st)\<rparr>"
    by (simp_all add: new_CoordinateMessage_cases)
  show ?thesis using parts la lo ok st' by (simp add: m)
qed

lemma from_string_Inl:
  assumes "from_string uuid4 to_float text st = (Inl e, st')"
  shows "\<exists>v. e = ValueError v \<and> v \<noteq> Label_cannot_be_empty"
proof (cases "length (split_ws 2 (strip text)) = 3")
  case False
  with assms show ?thesis by (auto simp: from_string_def)
next
  case True
  let ?parts = "split_ws 2 (strip text)"
  from True obtain a b c where parts: "?parts = [a, b, c]"
    using length3_cases by blast
  then have "c \<in> set ?parts" by simp
  then have c: "c \<noteq> []" by (rule split_ws_nonempty)
  show ?thesis
  proof (cases "to_float a")
    case None
    with assms parts show ?thesis by (auto simp: from_string_def)
  next
    case (Some la)
    note la = this
    show ?thesis
    proof (cases "to_float b")
      case None
      with assms parts la show ?thesis by (auto simp: from_string_def)
    next
      case (Some lo)
      from assms have "new_CoordinateMessage uuid4 la lo c st = (Inl e, st')"
        using from_string_parts [OF parts la Some] by simp
      with c show ?thesis
        by (auto simp: new_CoordinateMessage_cases split: if_splits)
    qed
  qed
qed

subsection \<open>Parsing succeeds on well-formed text and fails otherwise\<close>

lemma inj_example_uuid4: "inj example_uuid4"
  by (simp add: inj_def example_uuid4_def)

lemma isspace_simps [simp]:
  "isspace CHR '' ''" "\<not> isspace CHR ''1''" "\<not> isspace CHR ''2''"
  by (simp_all add: isspace_def)

text \<open>
  Claim C1.  A text made of a latitude token, a longitude token and a non-empty label,
  separated by whitespace and with any whitespace around it, parses to an event with
  exactly the parsed latitude and longitude and with the label as description, when
  the two floats are in range; the event identifier is not empty.  Two invocations on
  the same text, the second one after the first, give different identifiers (a
  \<^verbatim>\<open>uuid4\<close> that never repeats a value is understood).  A text that does not
  split into exactly three items fails with the \<^verbatim>\<open>ValueError\<close> of the format, and
  one whose first or second item is not a float fails with the \<^verbatim>\<open>ValueError\<close> of
  the coordinates.
\<close>

theorem from_string_spec:
  "(blank wa \<and> token a \<and> wb \<noteq> [] \<and> blank wb \<and> token b \<and> wc \<noteq> [] \<and> blank wc
      \<and> c \<noteq> [] \<and> \<not> isspace (hd c) \<and> \<not> isspace (last c) \<and> blank wd
      \<and> to_float a = Some la \<and> to_float b = Some lo \<and> lat_in_range la \<and> lon_in_range lo
    \<longrightarrow> (\<exists>m. from_string uuid to_float (wa @ a @ wb @ b @ wc @ c @ wd) st
                = (Inr m, st\<lparr>uuid_calls := Suc (uuid_calls st)\<rparr>)
            \<and> lat m = la \<and> lon m = lo \<and> description m = c \<and> event_id m \<noteq> []))
   \<and> (inj uuid \<and> from_string uuid to_float raw st = (Inr ma, sta)
        \<and> uuid_calls sta \<le> uuid_calls stb
        \<and> from_string uuid to_float raw stb = (Inr mb, stc)
      \<longrightarrow> event_id ma \<noteq> event_id mb)
   \<and> (length (split_ws 2 (strip raw)) \<noteq> 3
      \<longrightarrow> from_string uuid to_float raw st = (Inl (ValueError Expected_lat_lon_label), st))
   \<and> (split_ws 2 (strip raw) = [x, y, z] \<and> (to_float x = None \<or> to_float y = None)
      \<longrightarrow> from_string uuid to_float raw st = (Inl (ValueError Invalid_coordinates), st))"
proof (intro conjI impI)
  assume h: "blank wa \<and> token a \<and> wb \<noteq> [] \<and> blank wb \<and> token b \<and> wc \<noteq> [] \<and> blank wc
      \<and> c \<noteq> [] \<and> \<not> isspace (hd c) \<and> \<not> isspace (last c) \<and> blank wd
      \<and> to_float a = Some la \<and> to_float b = Some lo \<and> lat_in_range la \<and> lon_in_range lo"
  then have "strip (wa @ a @ wb @ b @ wc @ c @ wd) = a @ wb @ b @ wc @ c"
    by (intro strip_text_form) simp_all
  moreover from h have "split_ws 2 (a @ wb @ b @ wc @ c) = [a, b, c]"
    by (intro split_ws_three) simp_all
  ultimately have "split_ws 2 (strip (wa @ a @ wb @ b @ wc @ c @ wd)) = [a, b, c]"
    by simp
  moreover from h have "to_float a = Some la" "to_float b = Some lo" by simp_all
  ultimately have "from_string uuid to_float (wa @ a @ wb @ b @ wc @ c @ wd) st
      = new_CoordinateMessage uuid la lo c st"
    by (rule from_string_parts)
  with h show "\<exists>m. from_string uuid to_float (wa @ a @ wb @ b @ wc @ c @ wd) st
                = (Inr m, st\<lparr>uuid_calls := Suc (uuid_calls st)\<rparr>)
            \<and> lat m = la \<and> lon m = lo \<and> description m = c \<and> event_id m \<noteq> []"
    by (simp add: new_CoordinateMessage_cases)
next
  assume h: "inj uuid \<and> from_string uuid to_float raw st = (Inr ma, sta)
        \<and> uuid_calls sta \<le> uuid_calls stb
        \<and> from_string uuid to_float raw stb = (Inr mb, stc)"
  then have a: "event_id ma = ''Signal-Bot-'' @ uuid (uuid_calls st)"
    and sta: "uuid_calls sta = Suc (uuid_calls st)"
    using from_string_Inr [of uuid to_float raw st ma sta] by auto
  from h have b: "event_id mb = ''Signal-Bot-'' @ uuid (uuid_calls stb)"
    using from_string_Inr [of uuid to_float raw stb mb stc] by auto
  from h sta have "uuid_calls st \<noteq> uuid_calls stb" by simp
  with h have "uuid (uuid_calls st) \<noteq> uuid (uuid_calls stb)"
    by (auto dest: injD)
  with a b show "event_id ma \<noteq> event_id mb" by simp
next
  assume "length (split_ws 2 (strip raw)) \<noteq> 3"
  then show "from_string uuid to_float raw st = (Inl (ValueError Expected_lat_lon_label), st)"
    by (simp add: from_string_def)
next
  assume "split_ws 2 (strip raw) = [x, y, z] \<and> (to_float x = None \<or> to_float y = None)"
  then show "from_string uuid to_float raw st = (Inl (ValueError Invalid_coordinates), st)"
    by (auto simp: from_string_def Let_def split: option.splits)
qed

theorem from_string_spec_witness:
  "(\<exists>m. from_string example_uuid4 example_float ('' '' @ ''1'' @ '' '' @ ''2'' @ ''  '' @ ''big tank'' @ '' '') empty_state
          = (Inr m, empty_state\<lparr>uuid_calls := Suc (uuid_calls empty_state)\<rparr>)
        \<and> lat m = Finite 1 \<and> lon m = Finite 2 \<and> description m = ''big tank'' \<and> event_id m \<noteq> [])
   \<and> ''Signal-Bot-0'' \<noteq> ''Signal-Bot-00''
   \<and> from_string example_uuid4 example_float ''1 2'' empty_state
       = (Inl (ValueError Expected_lat_lon_label), empty_state)
   \<and> from_string example_uuid4 example_float ''1 x tank'' empty_state
       = (Inl (ValueError Invalid_coordinates), empty_state)"
proof -
  let ?ma = "\<lparr>lat = Finite 1, lon = Finite 2, description = ''tank'', affiliation = UNKNOWN,
              event_id = ''Signal-Bot-0''\<rparr>"
  let ?mb = "\<lparr>lat = Finite 1, lon = Finite 2, description = ''tank'', affiliation = UNKNOWN,
              event_id = ''Signal-Bot-00''\<rparr>"
  let ?sta = "\<lparr>queue = [], trace = [], uuid_calls = 1\<rparr>"
  let ?stc = "\<lparr>queue = [], trace = [], uuid_calls = 2\<rparr>"
  have form: "blank '' '' \<and> token ''1'' \<and> '' '' \<noteq> [] \<and> blank '' '' \<and> token ''2'' \<and> ''  '' \<noteq> []
      \<and> blank ''  '' \<and> ''big tank'' \<noteq> [] \<and> \<not> isspace (hd ''big tank'')
      \<and> \<not> isspace (last ''big tank'') \<and> blank '' ''
      \<and> example_float ''1'' = Some (Finite 1) \<and> example_float ''2'' = Some (Finite 2)
      \<and> lat_in_range (Finite 1) \<and> lon_in_range (Finite 2)"
    by (simp add: blank_def token_def isspace_def example_float_def lat_in_range_def
        lon_in_range_def)
  have s12: "split_ws 2 (strip ''1 2'') = [''1'', ''2'']"
    by (simp add: numeral_2_eq_2 strip_def lstrip_def rstrip_def isspace_def)
  have s1x: "split_ws 2 (strip ''1 x tank'') = [''1'', ''x'', ''tank'']"
    by (simp add: numeral_2_eq_2 strip_def lstrip_def rstrip_def isspace_def)
  have s1t: "split_ws 2 (strip ''1 2 tank'') = [''1'', ''2'', ''tank'']"
    by (simp add: numeral_2_eq_2 strip_def lstrip_def rstrip_def isspace_def)
  have fa: "from_string example_uuid4 example_float ''1 2 tank'' empty_state = (Inr ?ma, ?sta)"
    by (simp add: from_string_def s1t example_float_def new_CoordinateMessage_cases
        lat_in_range_def lon_in_range_def empty_state_def example_uuid4_def)
  have fb: "from_string example_uuid4 example_float ''1 2 tank'' ?sta = (Inr ?mb, ?stc)"
    by (simp add: from_string_def s1t example_float_def new_CoordinateMessage_cases
        lat_in_range_def lon_in_range_def example_uuid4_def)
  have uniq: "inj example_uuid4 \<and> from_string example_uuid4 example_float ''1 2 tank'' empty_state = (Inr ?ma, ?sta)
        \<and> uuid_calls ?sta \<le> uuid_calls ?sta
        \<and> from_string example_uuid4 example_float ''1 2 tank'' ?sta = (Inr ?mb, ?stc)"
    using fa fb inj_example_uuid4 by simp
  have len: "length (split_ws 2 (strip ''1 2'')) \<noteq> 3" by (simp add: s12)
  have num: "split_ws 2 (strip ''1 x tank'') = [''1'', ''x'', ''tank'']
      \<and> (example_float ''1'' = None \<or> example_float ''x'' = None)"
    by (simp add: s1x example_float_def)
  note t1 = from_string_spec [where uuid = example_uuid4 and to_float = example_float
      and st = empty_state and wa = "'' ''" and a = "''1''" and wb = "'' ''" and b = "''2''"
      and wc = "''  ''" and c = "''big tank''" and wd = "'' ''" and la = "Finite 1"
      and lo = "Finite 2" and raw = "''1 2 tank''" and ma = ?ma and sta = ?sta and stb = ?sta
      and mb = ?mb and stc = ?stc]
  note t2 = from_string_spec [where uuid = example_uuid4 and to_float = example_float
      and st = empty_state and raw = "''1 2''"]
  note t3 = from_string_spec [where uuid = example_uuid4 and to_float = example_float
      and st = empty_state and raw = "''1 x tank''" and x = "''1''" and y = "''x''"
      and z = "''tank''"]
  from t1 form have p1: "\<exists>m. from_string example_uuid4 example_float ('' '' @ ''1'' @ '' '' @ ''2'' @ ''  '' @ ''big tank'' @ '' '') empty_state
          = (Inr m, empty_state\<lparr>uuid_calls := Suc (uuid_calls empty_state)\<rparr>)
        \<and> lat m = Finite 1 \<and> lon m = Finite 2 \<and> description m = ''big tank'' \<and> event_id m \<noteq> []"
    by blast
  from t1 uniq have p2: "event_id ?ma \<noteq> event_id ?mb" by blast
  from t2 len have p3: "from_string example_uuid4 example_float ''1 2'' empty_state
       = (Inl (ValueError Expected_lat_lon_label), empty_state)" by blast
  from t3 num have p4: "from_string example_uuid4 example_float ''1 x tank'' empty_state
       = (Inl (ValueError Invalid_coordinates), empty_state)" by blast
  from p1 p2 p3 p4 show ?thesis by simp
qed

lemma split_1_2_tank: "split_ws 2 (strip ''1 2 tank'') = [''1'', ''2'', ''tank'']"
  by (simp add: numeral_2_eq_2 strip_def lstrip_def rstrip_def isspace_def)

lemma from_string_1_2_tank:
  "from_string example_uuid4 example_float ''1 2 tank'' empty_state
     = (Inr \<lparr>lat = Finite 1, lon = Finite 2, description = ''tank'', affiliation = UNKNOWN,
              event_id = ''Signal-Bot-0''\<rparr>,
        \<lparr>queue = [], trace = [], uuid_calls = 1\<rparr>)"
  by (simp add: from_string_def split_1_2_tank example_float_def new_CoordinateMessage_cases
      lat_in_range_def lon_in_range_def empty_state_def example_uuid4_def)

subsection \<open>The label of a parsed event\<close>

text \<open>
  Claim C9.  Every item that the whitespace split returns is non-empty; so every event
  that \<^verbatim>\<open>from_string\<close> returns has a non-empty description, and \<^verbatim>\<open>from_string\<close>
  never fails with the "Label cannot be empty" error of \<^verbatim>\<open>__post_init__\<close>.
\<close>

theorem from_string_label_nonempty:
  "(p \<in> set (split_ws n s) \<longrightarrow> p \<noteq> [])
   \<and> (from_string uuid to_float raw st = (Inr m, st') \<longrightarrow> description m \<noteq> [])
   \<and> from_string uuid to_float raw st \<noteq> (Inl (ValueError Label_cannot_be_empty), st')"
proof (intro conjI impI)
  assume "p \<in> set (split_ws n s)"
  then show "p \<noteq> []" by (rule split_ws_nonempty)
next
  assume "from_string uuid to_float raw st = (Inr m, st')"
  from from_string_Inr [OF this] show "description m \<noteq> []" by blast
next
  show "from_string uuid to_float raw st \<noteq> (Inl (ValueError Label_cannot_be_empty), st')"
  proof
    assume "from_string uuid to_float raw st = (Inl (ValueError Label_cannot_be_empty), st')"
    from from_string_Inl [OF this] show False by simp
  qed
qed

theorem from_string_label_nonempty_witness:
  "''tank'' \<in> set (split_ws 2 ''1 2 tank'') \<and> ''tank'' \<noteq> []
   \<and> (\<exists>m st'. from_string example_uuid4 example_float ''1 2 tank'' empty_state = (Inr m, st')
         \<and> description m \<noteq> [])"
proof -
  let ?m = "\<lparr>lat = Finite 1, lon = Finite 2, description = ''tank'', affiliation = UNKNOWN,
              event_id = ''Signal-Bot-0''\<rparr>"
  let ?st = "\<lparr>queue = [], trace = [], uuid_calls = 1\<rparr>"
  have mem: "''tank'' \<in> set (split_ws 2 ''1 2 tank'')"
    by (simp add: numeral_2_eq_2 isspace_def)
  note t = from_string_label_nonempty [where p = "''tank''" and n = 2 and s = "''1 2 tank''"
      and uuid = example_uuid4 and to_float = example_float and raw = "''1 2 tank''"
      and st = empty_state and m = ?m and st' = ?st]
  from t mem have "''tank'' \<noteq> []" by blast
  moreover from t from_string_1_2_tank have "description ?m \<noteq> []" by blast
  ultimately show ?thesis using mem from_string_1_2_tank by blast
qed

subsection \<open>Whitespace around the text\<close>

lemma from_string_fst:
  "fst (from_string uuid to_float raw st) =
     (let parts = split_ws 2 (strip raw)
      in if length parts \<noteq> 3 then Inl (ValueError Expected_lat_lon_label)
         else case to_float (parts ! 0) of
                None \<Rightarrow> Inl (ValueError Invalid_coordinates)
              | Some la \<Rightarrow>
                  (case to_float (parts ! 1) of
                     None \<Rightarrow> Inl (ValueError Invalid_coordinates)
                   | Some lo \<Rightarrow> fst (new_CoordinateMessage uuid la lo (parts ! 2) st)))"
  by (simp add: from_string_def Let_def split: option.splits)

lemma new_CoordinateMessage_states:
  "(\<exists>e. fst (new_CoordinateMessage uuid la lo d st) = Inl e
        \<and> fst (new_CoordinateMessage uuid la lo d st') = Inl e)
   \<or> (\<exists>ma mb. fst (new_CoordinateMessage uuid la lo d st) = Inr ma
        \<and> fst (new_CoordinateMessage uuid la lo d st') = Inr mb
        \<and> lat ma = lat mb \<and> lon ma = lon mb \<and> description ma = description mb)"
  by (simp add: new_CoordinateMessage_cases)

lemma from_string_states:
  "(\<exists>e. fst (from_string uuid to_float raw st) = Inl e
        \<and> fst (from_string uuid to_float raw st') = Inl e)
   \<or> (\<exists>ma mb. fst (from_string uuid to_float raw st) = Inr ma
        \<and> fst (from_string uuid to_float raw st') = Inr mb
        \<and> lat ma = lat mb \<and> lon ma = lon mb \<and> description ma = description mb)"
  using new_CoordinateMessage_states
  by (simp add: from_string_fst Let_def split: option.splits)

text \<open>
  Claim C10.  Adding whitespace before and after a text does not change what
  \<^verbatim>\<open>from_string\<close> does with it: in the same state the results are equal, and in any
  two states either both invocations fail (with the same error) or both succeed with
  equal latitude, longitude and description.
\<close>

theorem from_string_strip_invariant:
  "blank wa \<and> blank wb \<longrightarrow>
     from_string uuid to_float (wa @ raw @ wb) st = from_string uuid to_float raw st
     \<and> ((\<exists>e. fst (from_string uuid to_float (wa @ raw @ wb) st) = Inl e
            \<and> fst (from_string uuid to_float raw st') = Inl e)
        \<or> (\<exists>ma mb. fst (from_string uuid to_float (wa @ raw @ wb) st) = Inr ma
            \<and> fst (from_string uuid to_float raw st') = Inr mb
            \<and> lat ma = lat mb \<and> lon ma = lon mb \<and> description ma = description mb))"
proof
  assume "blank wa \<and> blank wb"
  then have "strip (wa @ raw @ wb) = strip raw" by (simp add: strip_surrounding_blank)
  then have eq: "from_string uuid to_float (wa @ raw @ wb) st = from_string uuid to_float raw st"
    by (simp add: from_string_def)
  show "from_string uuid to_float (wa @ raw @ wb) st = from_string uuid to_float raw st
     \<and> ((\<exists>e. fst (from_string uuid to_float (wa @ raw @ wb) st) = Inl e
            \<and> fst (from_string uuid to_float raw st') = Inl e)
        \<or> (\<exists>ma mb. fst (from_string uuid to_float (wa @ raw @ wb) st) = Inr ma
            \<and> fst (from_string uuid to_float raw st') = Inr mb
            \<and> lat ma = lat mb \<and> lon ma = lon mb \<and> description ma = description mb))"
    unfolding eq using from_string_states [of uuid to_float raw st st'] by simp
qed

theorem from_string_strip_invariant_witness:
  "from_string example_uuid4 example_float (''  '' @ ''1 2 tank'' @ '' '') empty_state
     = from_string example_uuid4 example_float ''1 2 tank'' empty_state
   \<and> from_string example_uuid4 example_float (''  '' @ ''1 2'' @ '' '') empty_state
     = from_string example_uuid4 example_float ''1 2'' empty_state"
proof -
  have b: "blank ''  '' \<and> blank '' ''" by (simp add: blank_def)
  from from_string_strip_invariant [where wa = "''  ''" and wb = "'' ''" and raw = "''1 2 tank''"
      and uuid = example_uuid4 and to_float = example_float and st = empty_state
      and st' = empty_state] b
  have "from_string example_uuid4 example_float (''  '' @ ''1 2 tank'' @ '' '') empty_state
     = from_string example_uuid4 example_float ''1 2 tank'' empty_state" by blast
  moreover
  from from_string_strip_invariant [where wa = "''  ''" and wb = "'' ''" and raw = "''1 2''"
      and uuid = example_uuid4 and to_float = example_float and st = empty_state
      and st' = empty_state] b
  have "from_string example_uuid4 example_float (''  '' @ ''1 2'' @ '' '') empty_state
     = from_string example_uuid4 example_float ''1 2'' empty_state" by blast
  ultimately show ?thesis by blast
qed

subsection \<open>The conversion handler\<close>

lemma cot_message_handler_parse_error:
  assumes "from_string uuid to_float raw st = (Inl e, st1)"
  shows "cot_message_handler uuid to_float enc raw st
    = (Inr (), emit (Log WARNING (''message could not be parsed: '' @ raw)) st1)"
proof -
  from from_string_Inl [OF assms] have "isinstance_ValueError e" by auto
  with assms show ?thesis by (simp add: cot_message_handler_def)
qed

lemma from_string_queue_trace:
  assumes "from_string uuid to_float raw st = (r, st1)"
  shows "queue st1 = queue st \<and> trace st1 = trace st"
  using assms
  by (auto simp: from_string_def Let_def new_CoordinateMessage_cases
      split: option.splits if_splits)

lemma new_CoordinateMessage_invalid:
  assumes "\<not> lat_in_range la \<or> \<not> lon_in_range lo"
  shows "new_CoordinateMessage uuid la lo d st =
           (Inl (ValueError (if \<not> lat_in_range la then Invalid_latitude else Invalid_longitude)),
            st\<lparr>uuid_calls := Suc (uuid_calls st)\<rparr>)"
  using assms by (auto simp: new_CoordinateMessage_cases)

text \<open>
  Claim C3.  When the latitude is outside -90..90 or the longitude is outside
  -180..180 (a NaN is outside both), the construction of a \<^verbatim>\<open>CoordinateMessage\<close>
  raises a \<^verbatim>\<open>ValueError\<close>; so \<^verbatim>\<open>from_string\<close> raises it for every text whose two
  parsed floats are such, and the conversion handler returns with the output queue
  as it was.
\<close>

theorem out_of_range_rejected:
  "(\<not> lat_in_range la \<or> \<not> lon_in_range lo
      \<longrightarrow> (\<exists>v st'. new_CoordinateMessage uuid la lo d st = (Inl (ValueError v), st')))
   \<and> (split_ws 2 (strip raw) = [a, b, c] \<and> to_float a = Some la \<and> to_float b = Some lo
        \<and> (\<not> lat_in_range la \<or> \<not> lon_in_range lo)
      \<longrightarrow> (\<exists>v st'. from_string uuid to_float raw st = (Inl (ValueError v), st'))
          \<and> (\<exists>st'. cot_message_handler uuid to_float enc raw st = (Inr (), st')
                \<and> queue st' = queue st))"
proof (intro conjI impI)
  assume "\<not> lat_in_range la \<or> \<not> lon_in_range lo"
  then show "\<exists>v st'. new_CoordinateMessage uuid la lo d st = (Inl (ValueError v), st')"
    by (simp add: new_CoordinateMessage_invalid)
next
  assume h: "split_ws 2 (strip raw) = [a, b, c] \<and> to_float a = Some la \<and> to_float b = Some lo
        \<and> (\<not> lat_in_range la \<or> \<not> lon_in_range lo)"
  then have "from_string uuid to_float raw st = new_CoordinateMessage uuid la lo c st"
    by (simp add: from_string_parts)
  with h obtain v where fs: "from_string uuid to_float raw st
      = (Inl (ValueError v), st\<lparr>uuid_calls := Suc (uuid_calls st)\<rparr>)"
    by (simp add: new_CoordinateMessage_invalid)
  then show "\<exists>v st'. from_string uuid to_float raw st = (Inl (ValueError v), st')" by blast
  from cot_message_handler_parse_error [OF fs]
  show "\<exists>st'. cot_message_handler uuid to_float enc raw st = (Inr (), st') \<and> queue st' = queue st"
    by (simp add: emit_def)
qed

lemma split_91_2_tank: "split_ws 2 (strip ''91 2 tank'') = [''91'', ''2'', ''tank'']"
  by (simp add: numeral_2_eq_2 strip_def lstrip_def rstrip_def isspace_def)

theorem out_of_range_rejected_witness:
  "(\<exists>v st'. new_CoordinateMessage example_uuid4 NaN (Finite 2) ''tank'' empty_state
       = (Inl (ValueError v), st'))
   \<and> (\<exists>v st'. from_string example_uuid4 example_float ''91 2 tank'' empty_state
       = (Inl (ValueError v), st'))
   \<and> (\<exists>st'. cot_message_handler example_uuid4 example_float example_encoder ''91 2 tank''
          empty_state = (Inr (), st') \<and> queue st' = queue empty_state)"
proof -
  have h1: "\<not> lat_in_range NaN \<or> \<not> lon_in_range (Finite 2)"
    by (simp add: lat_in_range_def)
  have h2: "split_ws 2 (strip ''91 2 tank'') = [''91'', ''2'', ''tank'']
      \<and> example_float ''91'' = Some (Finite 91) \<and> example_float ''2'' = Some (Finite 2)
      \<and> (\<not> lat_in_range (Finite 91) \<or> \<not> lon_in_range (Finite 2))"
    by (simp add: split_91_2_tank example_float_def lat_in_range_def)
  from out_of_range_rejected [where la = NaN and lo = "Finite 2" and uuid = example_uuid4
      and d = "''tank''" and st = empty_state] h1
  have "\<exists>v st'. new_CoordinateMessage example_uuid4 NaN (Finite 2) ''tank'' empty_state
       = (Inl (ValueError v), st')" by blast
  moreover
  from out_of_range_rejected [where la = "Finite 91" and lo = "Finite 2" and uuid = example_uuid4
      and to_float = example_float and raw = "''91 2 tank''" and a = "''91''" and b = "''2''"
      and c = "''tank''" and st = empty_state and enc = example_encoder] h2
  have "(\<exists>v st'. from_string example_uuid4 example_float ''91 2 tank'' empty_state
       = (Inl (ValueError v), st'))
   \<and> (\<exists>st'. cot_message_handler example_uuid4 example_float example_encoder ''91 2 tank''
          empty_state = (Inr (), st') \<and> queue st' = queue empty_state)" by blast
  ultimately show ?thesis by blast
qed

text \<open>
  Claim C4.  For every text the conversion handler returns normally.  It puts at most
  one item on the output queue: none, with a record at warning level, when parsing or
  validation fails; none, with a record at warning level, when the encoder returns
  \<^verbatim>\<open>None\<close> (or empty bytes); exactly the encoded bytes, at the end of the queue,
  otherwise.
\<close>

theorem cot_message_handler_never_raises:
  "\<exists>st'. cot_message_handler uuid to_float enc raw st = (Inr (), st')
     \<and> (queue st' = queue st \<or> (\<exists>item. queue st' = queue st @ [item]))
     \<and> length (queue st') \<le> Suc (length (queue st))
     \<and> (\<forall>e st1. from_string uuid to_float raw st = (Inl e, st1)
          \<longrightarrow> queue st' = queue st
            \<and> trace st' = trace st @ [Log WARNING (''message could not be parsed: '' @ raw)])
     \<and> (\<forall>m st1. from_string uuid to_float raw st = (Inr m, st1)
            \<and> (gen_cot enc m = None \<or> gen_cot enc m = Some [])
          \<longrightarrow> queue st' = queue st
            \<and> trace st' = trace st @ [Log WARNING (''Failed to generate cot bytes for : '' @ raw)])
     \<and> (\<forall>m st1 cot_bytes. from_string uuid to_float raw st = (Inr m, st1)
            \<and> gen_cot enc m = Some cot_bytes \<and> cot_bytes \<noteq> []
          \<longrightarrow> queue st' = queue st @ [cot_bytes] \<and> trace st' = trace st)"
proof -
  obtain r st1 where fs: "from_string uuid to_float raw st = (r, st1)"
    by (cases "from_string uuid to_float raw st")
  from from_string_queue_trace [OF fs] have qt: "queue st1 = queue st" "trace st1 = trace st"
    by simp_all
  show ?thesis
  proof (cases r)
    case (Inl e)
    from cot_message_handler_parse_error [OF fs [unfolded Inl]] fs qt show ?thesis
      by (simp add: emit_def Inl)
  next
    case (Inr m)
    show ?thesis
    proof (cases "gen_cot enc m")
      case None
      with fs qt show ?thesis
        by (simp add: cot_message_handler_def Inr emit_def)
    next
      case (Some cot_bytes)
      with fs qt show ?thesis
        by (simp add: cot_message_handler_def Inr emit_def queue_put_def)
    qed
  qed
qed

theorem cot_message_handler_never_raises_witness:
  "(\<exists>st'. cot_message_handler example_uuid4 example_float example_encoder ''1 2 tank''
       empty_state = (Inr (), st')
     \<and> queue st' = [''<event type=a-u-G-U-C-F-M/>''] \<and> trace st' = [])
   \<and> (\<exists>st'. cot_message_handler example_uuid4 example_float example_encoder ''1 2''
       empty_state = (Inr (), st')
     \<and> queue st' = [] \<and> trace st' = [Log WARNING ''message could not be parsed: 1 2''])"
proof -
  let ?m = "\<lparr>lat = Finite 1, lon = Finite 2, description = ''tank'', affiliation = UNKNOWN,
              event_id = ''Signal-Bot-0''\<rparr>"
  have enc: "gen_cot example_encoder ?m = Some ''<event type=a-u-G-U-C-F-M/>''"
    by (simp add: gen_cot_def example_encoder_def cot_type_def lower_def lower_char_def
        COT_TYPE_MAP_def)
  have bad: "from_string example_uuid4 example_float ''1 2'' empty_state
      = (Inl (ValueError Expected_lat_lon_label), empty_state)"
    by (simp add: from_string_def numeral_2_eq_2 strip_def lstrip_def rstrip_def isspace_def)
  from cot_message_handler_never_raises [of example_uuid4 example_float example_encoder
      "''1 2 tank''" empty_state] from_string_1_2_tank enc
  have "\<exists>st'. cot_message_handler example_uuid4 example_float example_encoder ''1 2 tank''
       empty_state = (Inr (), st')
     \<and> queue st' = [''<event type=a-u-G-U-C-F-M/>''] \<and> trace st' = []"
    by (auto simp: empty_state_def)
  moreover
  from cot_message_handler_never_raises [of example_uuid4 example_float example_encoder
      "''1 2''" empty_state] bad
  have "\<exists>st'. cot_message_handler example_uuid4 example_float example_encoder ''1 2''
       empty_state = (Inr (), st')
     \<and> queue st' = [] \<and> trace st' = [Log WARNING ''message could not be parsed: 1 2'']"
    by (auto simp: empty_state_def)
  ultimately show ?thesis by blast
qed

subsection \<open>The type code\<close>

lemma COT_TYPE_MAP_nonempty: "map_of COT_TYPE_MAP k = Some code \<Longrightarrow> code \<noteq> []"
  by (auto simp: COT_TYPE_MAP_def split: if_splits)

lemma cot_type_eq:
  "cot_type m = ''a-'' @ Affiliation_value (affiliation m) @ ''-''
        @ (case map_of COT_TYPE_MAP (lower (description m)) of
             Some code \<Rightarrow> code | None \<Rightarrow> ''G-U'')"
  by (auto simp: cot_type_def dest: COT_TYPE_MAP_nonempty split: option.splits)

lemma lower_examples:
  "lower ''Tank'' = ''tank''" "lower ''tank'' = ''tank''" "lower ''TANK'' = ''tank''"
  "lower ''spaceship'' = ''spaceship''"
  by code_simp+

text \<open>
  Claim C5.  The type code of an event is \<open>a-\<close>, the one-letter code of the
  affiliation, \<open>-\<close>, and the category code found in the table under the lower-cased
  description, or \<open>G-U\<close> when the table has no such key.  Descriptions with the same
  lower-case form (as \<open>Tank\<close>, \<open>tank\<close> and \<open>TANK\<close>) give the same type code, an
  unknown label such as \<open>spaceship\<close> gives the fallback, and an event parsed from chat
  text has a type code that starts with \<open>a-u-\<close>.
\<close>

theorem cot_type_spec:
  "cot_type m = ''a-'' @ Affiliation_value (affiliation m) @ ''-''
        @ (case map_of COT_TYPE_MAP (lower (description m)) of
             Some code \<Rightarrow> code | None \<Rightarrow> ''G-U'')
   \<and> length (Affiliation_value (affiliation m)) = 1
   \<and> (lower (description m) = lower (description m') \<and> affiliation m = affiliation m'
        \<longrightarrow> cot_type m = cot_type m')
   \<and> (map_of COT_TYPE_MAP (lower (description m)) = None
        \<longrightarrow> cot_type m = ''a-'' @ Affiliation_value (affiliation m) @ ''-G-U'')
   \<and> (from_string uuid to_float raw st = (Inr m, st') \<longrightarrow> take 4 (cot_type m) = ''a-u-'')
   \<and> lower ''Tank'' = ''tank'' \<and> lower ''tank'' = ''tank'' \<and> lower ''TANK'' = ''tank''
   \<and> map_of COT_TYPE_MAP ''tank'' = Some ''G-U-C-F-M''
   \<and> map_of COT_TYPE_MAP (lower ''spaceship'') = None"
proof (intro conjI impI)
  show "cot_type m = ''a-'' @ Affiliation_value (affiliation m) @ ''-''
        @ (case map_of COT_TYPE_MAP (lower (description m)) of
             Some code \<Rightarrow> code | None \<Rightarrow> ''G-U'')"
    by (rule cot_type_eq)
  show "length (Affiliation_value (affiliation m)) = 1"
    by (cases "affiliation m") simp_all
  show "cot_type m = cot_type m'"
    if "lower (description m) = lower (description m') \<and> affiliation m = affiliation m'"
    using that by (simp add: cot_type_def)
  show "cot_type m = ''a-'' @ Affiliation_value (affiliation m) @ ''-G-U''"
    if "map_of COT_TYPE_MAP (lower (description m)) = None"
    using that by (simp add: cot_type_def)
  show "take 4 (cot_type m) = ''a-u-''"
    if "from_string uuid to_float raw st = (Inr m, st')"
  proof -
    from from_string_Inr [OF that] have "affiliation m = UNKNOWN" by blast
    then show ?thesis by (simp add: cot_type_eq)
  qed
  show "lower ''Tank'' = ''tank''" "lower ''tank'' = ''tank''" "lower ''TANK'' = ''tank''"
    by (simp_all add: lower_examples)
  show "map_of COT_TYPE_MAP ''tank'' = Some ''G-U-C-F-M''"
    by (simp add: COT_TYPE_MAP_def)
  show "map_of COT_TYPE_MAP (lower ''spaceship'') = None"
    by (simp add: COT_TYPE_MAP_def lower_examples)
qed

theorem cot_type_spec_witness:
  "cot_type \<lparr>lat = Finite 1, lon = Finite 2, description = ''TANK'', affiliation = HOSTILE,
             event_id = ''x''\<rparr>
     = cot_type \<lparr>lat = Finite 1, lon = Finite 2, description = ''Tank'', affiliation = HOSTILE,
             event_id = ''y''\<rparr>
   \<and> cot_type \<lparr>lat = Finite 1, lon = Finite 2, description = ''spaceship'',
             affiliation = FRIENDLY, event_id = ''x''\<rparr> = ''a-f-G-U''
   \<and> take 4 (cot_type \<lparr>lat = Finite 1, lon = Finite 2, description = ''tank'',
             affiliation = UNKNOWN, event_id = ''Signal-Bot-0''\<rparr>) = ''a-u-''"
proof -
  let ?a = "\<lparr>lat = Finite 1, lon = Finite 2, description = ''TANK'', affiliation = HOSTILE,
             event_id = ''x''\<rparr>"
  let ?b = "\<lparr>lat = Finite 1, lon = Finite 2, description = ''Tank'', affiliation = HOSTILE,
             event_id = ''y''\<rparr>"
  let ?s = "\<lparr>lat = Finite 1, lon = Finite 2, description = ''spaceship'',
             affiliation = FRIENDLY, event_id = ''x''\<rparr>"
  let ?m = "\<lparr>lat = Finite 1, lon = Finite 2, description = ''tank'', affiliation = UNKNOWN,
              event_id = ''Signal-Bot-0''\<rparr>"
  have low: "lower (description ?a) = lower (description ?b) \<and> affiliation ?a = affiliation ?b"
    by (simp add: lower_examples)
  have unk: "map_of COT_TYPE_MAP (lower (description ?s)) = None"
    by (simp add: COT_TYPE_MAP_def lower_examples)
  from cot_type_spec [where m = ?a and m' = ?b] low have "cot_type ?a = cot_type ?b" by blast
  moreover from cot_type_spec [where m = ?s] unk
  have "cot_type ?s = ''a-'' @ Affiliation_value (affiliation ?s) @ ''-G-U''" by blast
  moreover from cot_type_spec [where m = ?m and uuid = example_uuid4 and to_float = example_float
      and raw = "''1 2 tank''" and st = empty_state
      and st' = "\<lparr>queue = [], trace = [], uuid_calls = 1\<rparr>"] from_string_1_2_tank
  have "take 4 (cot_type ?m) = ''a-u-''" by blast
  ultimately show ?thesis by simp
qed

section \<open>Routing an envelope\<close>

text \<open>
  The envelopes of the specification that carry no data message, or another method,
  return without a call of the callback; an envelope with account, source and text
  calls the callback once with the text.
\<close>

lemma handle_socket_message_no_data_message:
  "handle_socket_message
     (JDict [(''method'', JStr ''receive''), (''params'', JDict [(''envelope'', JDict [])])])
     (Some h) ''dataMessage'' st = (Inr (), st)"
  by (simp add: handle_socket_message_def try_pure_def)

lemma handle_socket_message_subscribe:
  "handle_socket_message (JDict [(''method'', JStr ''subscribe'')]) (Some h) ''dataMessage'' st
     = (Inr (), emit (Log DEBUG ''Other notification'') st)"
  by (simp add: handle_socket_message_def try_pure_def)

lemma handle_socket_message_with_account:
  "handle_socket_message
     (JDict [(''method'', JStr ''receive''),
             (''params'', JDict [(''account'', JStr ''+100''),
                (''envelope'', JDict [(''sourceNumber'', JStr ''+200''),
                   (''dataMessage'', JDict [(''message'', JStr ''1 2 tank'')])])])])
     (Some h) ''dataMessage'' st = h (JStr ''1 2 tank'') (emit (Log INFO ''Message from'') st)"
  by (simp add: handle_socket_message_def try_pure_def)

text \<open>
  Claim C2.  On the envelope
  \<^verbatim>\<open>{"method":"receive","params":{"envelope":{"dataMessage":{"message":"1 2 tank"}}}}\<close>
  the router finds the text \<open>1 2 tank\<close>, but \<^verbatim>\<open>params\<close> has no \<^verbatim>\<open>account\<close>, so
  \<^verbatim>\<open>account\<close> is \<^verbatim>\<open>None\<close> and the slice \<^verbatim>\<open>account[:7]\<close> in the log message
  raises a \<^verbatim>\<open>TypeError\<close>: the router raises before the callback is called, whatever
  the callback is.
\<close>

theorem handle_socket_message_missing_account:
  "handle_socket_message receive_1_2_tank (Some h) ''dataMessage'' st = (Inl TypeError, st)"
  by (simp add: handle_socket_message_def receive_1_2_tank_def try_pure_def)

section \<open>Lines that are not JSON\<close>

lemma read_lines_step:
  "read_lines json_loads h (r ## reads) st =
     (case read_line json_loads h r st of
        (Continue, st') \<Rightarrow> read_lines json_loads h reads st'
      | (Break, st') \<Rightarrow> Some (None, st')
      | (Raise e, st') \<Rightarrow> Some (Some e, st'))"
  by (subst read_lines.simps) (simp split: prod.splits control.splits)

lemma emit_trace: "emit ev st = st\<lparr>trace := trace st @ [ev]\<rparr>"
  by (simp add: emit_def)

lemma read_line_non_json:
  assumes "line \<noteq> []" "strip line \<noteq> []" "json_loads (strip line) = Inl JSONDecodeError"
  shows "read_line json_loads message_handler (Recv_text line) st
    = (Continue, emit (Log DEBUG (''Non-JSON: '' @ strip line))
                   (emit (Log DEBUG (''Raw: '' @ strip line)) st))"
  using assms by (simp add: read_line_def Let_def)

lemma read_line_blank:
  "line \<noteq> [] \<Longrightarrow> strip line = [] \<Longrightarrow>
     read_line json_loads message_handler (Recv_text line) st = (Continue, st)"
  by (simp add: read_line_def)

lemma read_line_undecodable:
  "read_line json_loads message_handler Recv_undecodable st = (Raise UnicodeDecodeError, st)"
  by (simp add: read_line_def)

lemma strip_not_json: "strip ''not json'' = ''not json''"
  by (simp add: strip_def lstrip_def rstrip_def isspace_def)

text \<open>
  Claim C7 as stated fails for two kinds of received lines that are not JSON.  Bytes
  that are not valid UTF-8 raise \<^verbatim>\<open>UnicodeDecodeError\<close> in the decoding, outside the
  inner \<^verbatim>\<open>try\<close>: the pass of the outer loop closes the connection, logs at error
  level and sleeps, no record at debug level is logged and the lines that follow on
  that connection are not read.  A blank line is skipped before anything is logged.
\<close>

theorem undecodable_line_reconnects:
  "read_line example_json_loads None Recv_undecodable empty_state
     = (Raise UnicodeDecodeError, empty_state)
   \<and> attempt example_json_loads None
        (Connection (Inr (Recv_undecodable ## sconst (Recv_text ''not json''))) None None)
        empty_state
     = Some (None,
         \<lparr>queue = [],
          trace = [Open_connection, Log INFO ''Connected to'', Writer_close, Writer_wait_closed,
                   Log ERROR ''Connection error'', Sleep 5],
          uuid_calls = 0\<rparr>)
   \<and> read_line example_json_loads None (Recv_text [CHR '' '', CHR 0x0A]) empty_state
     = (Continue, empty_state)"
  by (simp add: read_line_def attempt_def read_lines_step except_clauses_def sleep5_def
      emit_def empty_state_def strip_def lstrip_def rstrip_def isspace_def)

text \<open>
  Claim C7, amended.  A received line that decodes as UTF-8, is not the end of the
  stream, is not blank, and on which \<^verbatim>\<open>json.loads\<close> raises \<^verbatim>\<open>JSONDecodeError\<close>: the
  client logs two records at debug level (the raw line and the note that it is not
  JSON), puts nothing on the output queue, raises nothing, and goes on with the next
  read.
\<close>

theorem non_json_line_skipped:
  "line \<noteq> [] \<and> strip line \<noteq> [] \<and> json_loads (strip line) = Inl JSONDecodeError \<longrightarrow>
     (\<exists>st'. read_line json_loads message_handler (Recv_text line) st = (Continue, st')
        \<and> queue st' = queue st
        \<and> trace st' = trace st @ [Log DEBUG (''Raw: '' @ strip line),
                                   Log DEBUG (''Non-JSON: '' @ strip line)]
        \<and> read_lines json_loads message_handler (Recv_text line ## reads) st
            = read_lines json_loads message_handler reads st')"
proof
  assume h: "line \<noteq> [] \<and> strip line \<noteq> [] \<and> json_loads (strip line) = Inl JSONDecodeError"
  let ?st' = "emit (Log DEBUG (''Non-JSON: '' @ strip line))
                   (emit (Log DEBUG (''Raw: '' @ strip line)) st)"
  from h have rl: "read_line json_loads message_handler (Recv_text line) st = (Continue, ?st')"
    by (simp add: read_line_non_json)
  have "read_lines json_loads message_handler (Recv_text line ## reads) st
            = read_lines json_loads message_handler reads ?st'"
    by (simp add: read_lines_step rl)
  with rl show "\<exists>st'. read_line json_loads message_handler (Recv_text line) st = (Continue, st')
        \<and> queue st' = queue st
        \<and> trace st' = trace st @ [Log DEBUG (''Raw: '' @ strip line),
                                   Log DEBUG (''Non-JSON: '' @ strip line)]
        \<and> read_lines json_loads message_handler (Recv_text line ## reads) st
            = read_lines json_loads message_handler reads st'"
    by (simp add: emit_def)
qed

theorem non_json_line_skipped_witness:
  "\<exists>st'. read_line example_json_loads None (Recv_text ''not json'') empty_state = (Continue, st')
     \<and> queue st' = []
     \<and> trace st' = [Log DEBUG ''Raw: not json'', Log DEBUG ''Non-JSON: not json'']
     \<and> read_lines example_json_loads None (Recv_text ''not json'' ## sconst (Recv_text []))
           empty_state
         = read_lines example_json_loads None (sconst (Recv_text [])) st'"
proof -
  have h: "''not json'' \<noteq> [] \<and> strip ''not json'' \<noteq> []
      \<and> example_json_loads (strip ''not json'') = Inl JSONDecodeError"
    by (simp add: strip_not_json example_json_loads_def)
  from non_json_line_skipped [where line = "''not json''" and json_loads = example_json_loads
      and message_handler = None and st = empty_state and reads = "sconst (Recv_text [])"] h
  show ?thesis by (simp add: strip_not_json empty_state_def)
qed

section \<open>The reconnect loop\<close>

lemma reconnect_loop_step:
  "reconnect_loop json_loads h (c ## conns) st =
     (case attempt json_loads h c st of
        None \<Rightarrow> None
      | Some (None, st') \<Rightarrow> reconnect_loop json_loads h conns st'
      | Some (Some e, st') \<Rightarrow> Some (Inl e, st'))"
  by (subst reconnect_loop.simps) (simp split: prod.splits option.splits)

lemma reconnect_loop_raises:
  assumes "reconnect_loop json_loads h conns st = Some y"
  shows "\<exists>e st'. y = (Inl e, st')"
proof (rule reconnect_loop.raw_induct [where P = "\<lambda>_ _ _ _ y. \<exists>e st'. y = (Inl e, st')", OF _ assms])
  fix loop :: "(string \<Rightarrow> exn + json) \<Rightarrow> handler option \<Rightarrow> connection stream \<Rightarrow> state
     \<Rightarrow> ((exn + unit) \<times> state) option"
  fix json_loads h conns st y
  assume ih: "\<And>json_loads h conns st y. loop json_loads h conns st = Some y \<Longrightarrow> \<exists>e st'. y = (Inl e, st')"
    and step: "(case attempt json_loads h (shd conns) st of
        None \<Rightarrow> None
      | Some (None, st') \<Rightarrow> loop json_loads h (stl conns) st'
      | Some (Some e, st') \<Rightarrow> Some (Inl e, st')) = Some y"
  from step show "\<exists>e st'. y = (Inl e, st')"
    by (auto split: option.splits prod.splits dest: ih)
qed

lemma except_clauses_Exception:
  "isinstance_Exception e \<Longrightarrow>
     except_clauses e None st = (None, emit (Sleep 5) (emit (Log ERROR (error_message e)) st))"
  by (simp add: except_clauses_def sleep5_def error_message_def)

lemma attempt_open_fails:
  "isinstance_Exception e \<Longrightarrow>
     attempt json_loads h (Connection (Inl e) cl None) st
       = Some (None, emit (Sleep 5) (emit (Log ERROR (error_message e)) (emit Open_connection st)))"
  by (simp add: attempt_def except_clauses_Exception)

lemma attempt_cancelled:
  "attempt json_loads h (Connection (Inl CancelledError) cl sl) st
     = Some (Some CancelledError, emit Open_connection st)"
  by (simp add: attempt_def except_clauses_def)

lemma reconnect_loop_cancelled:
  "reconnect_loop json_loads h (Connection (Inl CancelledError) cl sl ## conns) st
     = Some (Inl CancelledError, st\<lparr>trace := trace st @ [Open_connection]\<rparr>)"
  by (simp add: reconnect_loop_step attempt_cancelled emit_trace)

lemma reconnect_loop_retries:
  assumes "isinstance_Exception e"
  shows "reconnect_loop json_loads h (replicate n (Connection (Inl e) cl None) @- conns) st
    = reconnect_loop json_loads h conns
        (st\<lparr>trace := trace st
            @ concat (replicate n [Open_connection, Log ERROR (error_message e), Sleep 5])\<rparr>)"
proof (induction n arbitrary: st)
  case 0
  show ?case by simp
next
  case (Suc n)
  show ?case
    by (simp add: reconnect_loop_step attempt_open_fails [OF assms] Suc emit_trace)
qed

lemma attempt_session:
  assumes "read_lines json_loads h reads
      (st\<lparr>trace := trace st @ [Open_connection, Log INFO ''Connected to'']\<rparr>) = Some (r, stb)"
  shows "attempt json_loads h (Connection (Inr reads) cl sl) st =
     (let stc = stb\<lparr>trace := trace stb @ [Writer_close, Writer_wait_closed]\<rparr>
      in case cl of
           Some e' \<Rightarrow> Some (except_clauses e' sl stc)
         | None \<Rightarrow> (case r of None \<Rightarrow> Some (None, stc)
                             | Some e \<Rightarrow> Some (except_clauses e sl stc)))"
proof -
  have "emit (Log INFO ''Connected to'') (emit Open_connection st)
      = st\<lparr>trace := trace st @ [Open_connection, Log INFO ''Connected to'']\<rparr>"
    by (simp add: emit_def)
  with assms show ?thesis
    by (simp add: attempt_def Let_def emit_def split: option.splits)
qed

lemma read_lines_break_warning:
  assumes "read_lines json_loads h reads st = Some y"
  shows "fst y = None \<longrightarrow> (\<exists>tr. trace (snd y) = tr @ [Log WARNING ''Connection closed by server''])"
proof (rule read_lines.raw_induct [where P = "\<lambda>_ _ _ _ y. fst y = None \<longrightarrow>
    (\<exists>tr. trace (snd y) = tr @ [Log WARNING ''Connection closed by server''])", OF _ assms])
  fix loop :: "(string \<Rightarrow> exn + json) \<Rightarrow> handler option \<Rightarrow> recv stream \<Rightarrow> state
     \<Rightarrow> (exn option \<times> state) option"
  fix json_loads h reads st y
  assume ih: "\<And>json_loads h reads st y. loop json_loads h reads st = Some y \<Longrightarrow>
      fst y = None \<longrightarrow> (\<exists>tr. trace (snd y) = tr @ [Log WARNING ''Connection closed by server''])"
    and step: "(case read_line json_loads h (shd reads) st of
        (Continue, st') \<Rightarrow> loop json_loads h (stl reads) st'
      | (Break, st') \<Rightarrow> Some (None, st')
      | (Raise e, st') \<Rightarrow> Some (Some e, st')) = Some y"
  obtain c st' where rl: "read_line json_loads h (shd reads) st = (c, st')"
    by (cases "read_line json_loads h (shd reads) st")
  show "fst y = None \<longrightarrow> (\<exists>tr. trace (snd y) = tr @ [Log WARNING ''Connection closed by server''])"
  proof (cases c)
    case Continue
    with step rl have "loop json_loads h (stl reads) st' = Some y" by simp
    from ih [OF this] show ?thesis .
  next
    case Break
    with rl have "st' = emit (Log WARNING ''Connection closed by server'') st"
      by (auto simp: read_line_def Let_def split: recv.splits if_splits sum.splits prod.splits)
    with step rl Break show ?thesis by (auto simp: emit_def)
  next
    case (Raise e)
    with step rl show ?thesis by auto
  qed
qed

lemma receive_from_tcp_socket_loop:
  "receive_from_tcp_socket json_loads conns host port h st
     = reconnect_loop json_loads h conns
         (st\<lparr>trace := trace st @ [Log INFO ''Connecting to signal-cli daemon'']\<rparr>)"
  by (simp add: receive_from_tcp_socket_def emit_def)

lemma reconnect_loop_session:
  assumes "read_lines json_loads h reads
      (st\<lparr>trace := trace st @ [Open_connection, Log INFO ''Connected to'']\<rparr>) = Some (r, stb)"
    and "attempt_result = (let stc = stb\<lparr>trace := trace stb @ [Writer_close, Writer_wait_closed]\<rparr>
      in case cl of
           Some e' \<Rightarrow> except_clauses e' sl stc
         | None \<Rightarrow> (case r of None \<Rightarrow> (None, stc) | Some e \<Rightarrow> except_clauses e sl stc))"
    and "attempt_result = (None, std)"
  shows "reconnect_loop json_loads h (Connection (Inr reads) cl sl ## conns) st
     = reconnect_loop json_loads h conns std"
proof -
  from attempt_session [OF assms(1), of cl sl] assms(2,3)
  have "attempt json_loads h (Connection (Inr reads) cl sl) st = Some (None, std)"
    by (auto simp: Let_def split: option.splits)
  then show ?thesis by (simp add: reconnect_loop_step)
qed

text \<open>
  Claim C6 as stated fails when the server closes the stream, which is an error of
  the connection as well: the client logs at warning level, not at error level, and
  opens the next connection at once, without the delay of 5.
\<close>

theorem stream_closure_reconnects_at_once:
  "receive_from_tcp_socket example_json_loads
      (Connection (Inr (sconst (Recv_text []))) None None
         ## sconst (Connection (Inl CancelledError) None None))
      ''localhost'' 7583 None empty_state
     = Some (Inl CancelledError,
         \<lparr>queue = [],
          trace = [Log INFO ''Connecting to signal-cli daemon'', Open_connection,
                   Log INFO ''Connected to'', Log WARNING ''Connection closed by server'',
                   Writer_close, Writer_wait_closed, Open_connection],
          uuid_calls = 0\<rparr>)"
proof -
  have rl: "\<And>st. read_lines example_json_loads None (sconst (Recv_text [])) st
      = Some (None, emit (Log WARNING ''Connection closed by server'') st)"
    by (subst read_lines.simps) (simp add: read_line_def)
  have c: "sconst (Connection (Inl CancelledError) None None)
      = Connection (Inl CancelledError) None None ## sconst (Connection (Inl CancelledError) None None)"
    by (subst siterate.code) simp
  show ?thesis
    by (subst c)
      (simp add: receive_from_tcp_socket_def reconnect_loop_step attempt_def rl
        reconnect_loop_cancelled except_clauses_def emit_def empty_state_def)
qed

text \<open>
  Claim C6, amended.  The client never returns normally: a run goes on for ever or
  ends by an exception that \<^verbatim>\<open>except Exception\<close> does not catch, as a cancellation
  while it connects.  When opening the connection, a read at any point of the
  session, or closing the connection raises an \<^verbatim>\<open>Exception\<close> (a refused connection
  or any other), the client logs one record at error level, sleeps 5 and goes on with
  the next connection; after any number \<open>n\<close> of connections that fail to open it has
  opened, logged and slept \<open>n\<close> times and goes on.  When the server closes the
  stream, the client logs at warning level and goes on with the next connection
  without sleeping.
\<close>

theorem receive_from_tcp_socket_retries:
  "receive_from_tcp_socket json_loads conns host port h st \<noteq> Some (Inr (), stz)
   \<and> receive_from_tcp_socket json_loads (Connection (Inl CancelledError) cl sl ## conns)
         host port h st
       = Some (Inl CancelledError,
           st\<lparr>trace := trace st @ [Log INFO ''Connecting to signal-cli daemon'',
                                    Open_connection]\<rparr>)
   \<and> reconnect_loop json_loads h (Connection (Inl CancelledError) cl sl ## conns) st
       = Some (Inl CancelledError, st\<lparr>trace := trace st @ [Open_connection]\<rparr>)
   \<and> (isinstance_Exception e \<longrightarrow>
        receive_from_tcp_socket json_loads
            (replicate n (Connection (Inl e) cl None) @- conns) host port h st
          = reconnect_loop json_loads h conns
              (st\<lparr>trace := trace st @ Log INFO ''Connecting to signal-cli daemon''
                 # concat (replicate n
                     [Open_connection, Log ERROR (error_message e), Sleep 5])\<rparr>))
   \<and> (isinstance_Exception e
        \<and> read_lines json_loads h reads
             (st\<lparr>trace := trace st @ [Log INFO ''Connecting to signal-cli daemon'',
                                      Open_connection, Log INFO ''Connected to'']\<rparr>)
           = Some (Some e, stb) \<longrightarrow>
        receive_from_tcp_socket json_loads (Connection (Inr reads) None None ## conns)
            host port h st
          = reconnect_loop json_loads h conns
              (stb\<lparr>trace := trace stb @ [Writer_close, Writer_wait_closed,
                                       Log ERROR (error_message e), Sleep 5]\<rparr>))
   \<and> (isinstance_Exception e
        \<and> read_lines json_loads h reads
             (st\<lparr>trace := trace st @ [Log INFO ''Connecting to signal-cli daemon'',
                                      Open_connection, Log INFO ''Connected to'']\<rparr>)
           = Some (r, stb) \<longrightarrow>
        receive_from_tcp_socket json_loads (Connection (Inr reads) (Some e) None ## conns)
            host port h st
          = reconnect_loop json_loads h conns
              (stb\<lparr>trace := trace stb @ [Writer_close, Writer_wait_closed,
                                       Log ERROR (error_message e), Sleep 5]\<rparr>))
   \<and> (read_lines json_loads h reads
             (st\<lparr>trace := trace st @ [Log INFO ''Connecting to signal-cli daemon'',
                                      Open_connection, Log INFO ''Connected to'']\<rparr>)
           = Some (None, stb) \<longrightarrow>
        receive_from_tcp_socket json_loads (Connection (Inr reads) None sl ## conns)
            host port h st
          = reconnect_loop json_loads h conns
              (stb\<lparr>trace := trace stb @ [Writer_close, Writer_wait_closed]\<rparr>)
        \<and> (\<exists>tr. trace stb = tr @ [Log WARNING ''Connection closed by server'']))"
proof (intro conjI impI)
  let ?st = "st\<lparr>trace := trace st @ [Log INFO ''Connecting to signal-cli daemon'']\<rparr>"
  let ?conn = "st\<lparr>trace := trace st @ [Log INFO ''Connecting to signal-cli daemon'',
                                      Open_connection, Log INFO ''Connected to'']\<rparr>"
  have conn: "?st\<lparr>trace := trace ?st @ [Open_connection, Log INFO ''Connected to'']\<rparr> = ?conn"
    by simp
  show "receive_from_tcp_socket json_loads conns host port h st \<noteq> Some (Inr (), stz)"
  proof
    assume "receive_from_tcp_socket json_loads conns host port h st = Some (Inr (), stz)"
    then have "reconnect_loop json_loads h conns ?st = Some (Inr (), stz)"
      by (simp add: receive_from_tcp_socket_loop)
    from reconnect_loop_raises [OF this] show False by simp
  qed
  show "receive_from_tcp_socket json_loads (Connection (Inl CancelledError) cl sl ## conns)
         host port h st
       = Some (Inl CancelledError,
           st\<lparr>trace := trace st @ [Log INFO ''Connecting to signal-cli daemon'',
                                    Open_connection]\<rparr>)"
    by (simp add: receive_from_tcp_socket_loop reconnect_loop_cancelled)
  show "reconnect_loop json_loads h (Connection (Inl CancelledError) cl sl ## conns) st
       = Some (Inl CancelledError, st\<lparr>trace := trace st @ [Open_connection]\<rparr>)"
    by (rule reconnect_loop_cancelled)
  show "receive_from_tcp_socket json_loads
            (replicate n (Connection (Inl e) cl None) @- conns) host port h st
          = reconnect_loop json_loads h conns
              (st\<lparr>trace := trace st @ Log INFO ''Connecting to signal-cli daemon''
                 # concat (replicate n
                     [Open_connection, Log ERROR (error_message e), Sleep 5])\<rparr>)"
    if "isinstance_Exception e"
    by (simp add: receive_from_tcp_socket_loop reconnect_loop_retries [OF that])
  show "receive_from_tcp_socket json_loads (Connection (Inr reads) None None ## conns)
            host port h st
          = reconnect_loop json_loads h conns
              (stb\<lparr>trace := trace stb @ [Writer_close, Writer_wait_closed,
                                       Log ERROR (error_message e), Sleep 5]\<rparr>)"
    if a: "isinstance_Exception e \<and> read_lines json_loads h reads ?conn = Some (Some e, stb)"
  proof -
    from a have rl: "read_lines json_loads h reads
        (?st\<lparr>trace := trace ?st @ [Open_connection, Log INFO ''Connected to'']\<rparr>)
        = Some (Some e, stb)"
      by (simp only: conn)
    show ?thesis
      unfolding receive_from_tcp_socket_loop
      by (rule reconnect_loop_session [OF rl refl])
        (use a in \<open>simp add: except_clauses_Exception emit_def\<close>)
  qed
  show "receive_from_tcp_socket json_loads (Connection (Inr reads) (Some e) None ## conns)
            host port h st
          = reconnect_loop json_loads h conns
              (stb\<lparr>trace := trace stb @ [Writer_close, Writer_wait_closed,
                                       Log ERROR (error_message e), Sleep 5]\<rparr>)"
    if a: "isinstance_Exception e \<and> read_lines json_loads h reads ?conn = Some (r, stb)"
  proof -
    from a have rl: "read_lines json_loads h reads
        (?st\<lparr>trace := trace ?st @ [Open_connection, Log INFO ''Connected to'']\<rparr>)
        = Some (r, stb)"
      by (simp only: conn)
    show ?thesis
      unfolding receive_from_tcp_socket_loop
      by (rule reconnect_loop_session [OF rl refl])
        (use a in \<open>simp add: except_clauses_Exception emit_def\<close>)
  qed
  assume a: "read_lines json_loads h reads ?conn = Some (None, stb)"
  then have rl: "read_lines json_loads h reads
        (?st\<lparr>trace := trace ?st @ [Open_connection, Log INFO ''Connected to'']\<rparr>)
        = Some (None, stb)"
    by (simp only: conn)
  show "receive_from_tcp_socket json_loads (Connection (Inr reads) None sl ## conns)
            host port h st
          = reconnect_loop json_loads h conns
              (stb\<lparr>trace := trace stb @ [Writer_close, Writer_wait_closed]\<rparr>)"
    unfolding receive_from_tcp_socket_loop
    by (rule reconnect_loop_session [OF rl refl]) simp
  from read_lines_break_warning [OF a]
  show "\<exists>tr. trace stb = tr @ [Log WARNING ''Connection closed by server'']" by simp
qed

lemma read_lines_not_json_then_error:
  "read_lines example_json_loads None (Recv_text ''not json'' ## sconst (Recv_raises OSError)) st
     = Some (Some OSError,
         st\<lparr>trace := trace st @ [Log DEBUG ''Raw: not json'', Log DEBUG ''Non-JSON: not json'']\<rparr>)"
proof -
  have r: "\<And>st. read_lines example_json_loads None (sconst (Recv_raises OSError)) st
      = Some (Some OSError, st)"
    by (subst read_lines.simps) (simp add: read_line_def)
  have "read_line example_json_loads None (Recv_text ''not json'') st
      = (Continue, emit (Log DEBUG (''Non-JSON: '' @ strip ''not json''))
                   (emit (Log DEBUG (''Raw: '' @ strip ''not json'')) st))"
    by (rule read_line_non_json) (simp_all add: strip_not_json example_json_loads_def)
  then show ?thesis by (simp add: read_lines_step r strip_not_json emit_def)
qed

lemma read_lines_eof:
  "read_lines json_loads h (sconst (Recv_text [])) st
     = Some (None, st\<lparr>trace := trace st @ [Log WARNING ''Connection closed by server'']\<rparr>)"
  by (subst read_lines.simps) (simp add: read_line_def emit_def)

theorem receive_from_tcp_socket_retries_witness:
  "receive_from_tcp_socket example_json_loads
      (replicate 2 (Connection (Inl ConnectionRefusedError) None None)
         @- Connection (Inl CancelledError) None None
         ## sconst (Connection (Inl CancelledError) None None))
      ''localhost'' 7583 None empty_state
     = Some (Inl CancelledError,
         \<lparr>queue = [],
          trace = [Log INFO ''Connecting to signal-cli daemon'',
                   Open_connection,
                   Log ERROR ''Connection refused. Is daemon running with --tcp?'', Sleep 5,
                   Open_connection,
                   Log ERROR ''Connection refused. Is daemon running with --tcp?'', Sleep 5,
                   Open_connection],
          uuid_calls = 0\<rparr>)
   \<and> receive_from_tcp_socket example_json_loads
      (Connection (Inr (Recv_text ''not json'' ## sconst (Recv_raises OSError))) None None
         ## Connection (Inl CancelledError) None None
         ## sconst (Connection (Inl CancelledError) None None))
      ''localhost'' 7583 None empty_state
     = Some (Inl CancelledError,
         \<lparr>queue = [],
          trace = [Log INFO ''Connecting to signal-cli daemon'',
                   Open_connection, Log INFO ''Connected to'',
                   Log DEBUG ''Raw: not json'', Log DEBUG ''Non-JSON: not json'',
                   Writer_close, Writer_wait_closed,
                   Log ERROR ''Connection error'', Sleep 5,
                   Open_connection],
          uuid_calls = 0\<rparr>)
   \<and> receive_from_tcp_socket example_json_loads
      (Connection (Inr (sconst (Recv_text []))) (Some OSError) None
         ## Connection (Inl CancelledError) None None
         ## sconst (Connection (Inl CancelledError) None None))
      ''localhost'' 7583 None empty_state
     = Some (Inl CancelledError,
         \<lparr>queue = [],
          trace = [Log INFO ''Connecting to signal-cli daemon'',
                   Open_connection, Log INFO ''Connected to'',
                   Log WARNING ''Connection closed by server'',
                   Writer_close, Writer_wait_closed,
                   Log ERROR ''Connection error'', Sleep 5,
                   Open_connection],
          uuid_calls = 0\<rparr>)"
proof -
  let ?C = "Connection (Inl CancelledError) None None"
  let ?tail = "?C ## sconst ?C"
  let ?conn = "empty_state\<lparr>trace := trace empty_state
      @ [Log INFO ''Connecting to signal-cli daemon'', Open_connection, Log INFO ''Connected to'']\<rparr>"
  let ?stb = "?conn\<lparr>trace := trace ?conn
      @ [Log DEBUG ''Raw: not json'', Log DEBUG ''Non-JSON: not json'']\<rparr>"
  let ?stc = "?conn\<lparr>trace := trace ?conn @ [Log WARNING ''Connection closed by server'']\<rparr>"
  have e1: "isinstance_Exception ConnectionRefusedError" by simp
  have e2: "isinstance_Exception OSError
      \<and> read_lines example_json_loads None (Recv_text ''not json'' ## sconst (Recv_raises OSError))
           ?conn = Some (Some OSError, ?stb)"
    by (simp add: read_lines_not_json_then_error)
  have e3: "isinstance_Exception OSError
      \<and> read_lines example_json_loads None (sconst (Recv_text [])) ?conn = Some (None, ?stc)"
    by (simp add: read_lines_eof)
  from receive_from_tcp_socket_retries [where e = ConnectionRefusedError and n = 2
      and json_loads = example_json_loads and h = None and cl = None and st = empty_state
      and conns = ?tail and host = "''localhost''" and port = 7583] e1
  have p1: "receive_from_tcp_socket example_json_loads
      (replicate 2 (Connection (Inl ConnectionRefusedError) None None) @- ?tail)
      ''localhost'' 7583 None empty_state
    = reconnect_loop example_json_loads None ?tail
        (empty_state\<lparr>trace := trace empty_state @ Log INFO ''Connecting to signal-cli daemon''
           # concat (replicate 2 [Open_connection,
               Log ERROR (error_message ConnectionRefusedError), Sleep 5])\<rparr>)"
    by blast
  from receive_from_tcp_socket_retries [where e = OSError
      and json_loads = example_json_loads and h = None and st = empty_state
      and reads = "Recv_text ''not json'' ## sconst (Recv_raises OSError)" and stb = ?stb
      and conns = ?tail and host = "''localhost''" and port = 7583] e2
  have p2: "receive_from_tcp_socket example_json_loads
      (Connection (Inr (Recv_text ''not json'' ## sconst (Recv_raises OSError))) None None ## ?tail)
      ''localhost'' 7583 None empty_state
    = reconnect_loop example_json_loads None ?tail
        (?stb\<lparr>trace := trace ?stb @ [Writer_close, Writer_wait_closed,
           Log ERROR (error_message OSError), Sleep 5]\<rparr>)"
    by blast
  from receive_from_tcp_socket_retries [where e = OSError
      and json_loads = example_json_loads and h = None and st = empty_state
      and reads = "sconst (Recv_text [])" and stb = ?stc and r = None
      and conns = ?tail and host = "''localhost''" and port = 7583] e3
  have p3: "receive_from_tcp_socket example_json_loads
      (Connection (Inr (sconst (Recv_text []))) (Some OSError) None ## ?tail)
      ''localhost'' 7583 None empty_state
    = reconnect_loop example_json_loads None ?tail
        (?stc\<lparr>trace := trace ?stc @ [Writer_close, Writer_wait_closed,
           Log ERROR (error_message OSError), Sleep 5]\<rparr>)"
    by blast
  show ?thesis
    unfolding p1 p2 p3
    by (simp add: reconnect_loop_cancelled error_message_def empty_state_def numeral_2_eq_2)
qed

section \<open>The supervised run\<close>

text \<open>
  While the child is running, \<^verbatim>\<open>terminate\<close> and \<^verbatim>\<open>wait\<close> return: the statement ends
  with the outcome of its body, after the two calls as its last effects.
\<close>

lemma cleaning_up_proc_running_child:
  "body (st\<lparr>trace := trace st @ [Proc_start cmd, Log INFO ''Started process'']\<rparr>) = Some (r, stb)
     \<Longrightarrow> cleaning_up_proc None None None cmd body st
           = Some (r, stb\<lparr>trace := trace stb @ [Proc_terminate, Proc_wait]\<rparr>)"
  by (simp add: cleaning_up_proc_def run_def emit_def)


text \<open>The same cancellation with a child that is still running.\<close>

lemma run_incomming_message_processing_cancelled:
  "run_incomming_message_processing uuid to_float enc json_loads None None None
        (Connection (Inl CancelledError) cl sl ## conns) cmd host port st
     = Some (Inl CancelledError,
         st\<lparr>trace := trace st @ [Proc_start cmd, Log INFO ''Started process'',
                                  Log INFO ''Connecting to signal-cli daemon'',
                                  Open_connection, Proc_terminate, Proc_wait]\<rparr>)"
  by (simp add: cleaning_up_proc_def run_def run_incomming_message_processing_def
      receive_from_tcp_socket_loop reconnect_loop_cancelled emit_def)

end
